theory Spec2Isabelle
  imports Main "HOL-Library.Word" "HOL-Library.Sublist"
begin

section \<open>The file logger of LogCollection\<close>

text \<open>
  The development embeds the queue-based logger (types \<open>Log\<close>, \<open>SetLogger\<close>,
  \<open>logWriteToFile\<close>, \<open>clearOldLogs\<close>, \<open>Close\<close>, ...) function by function.
  Go strings are byte strings and are modelled as \<open>string\<close>; indices are bytes.
\<close>

subsection \<open>getFunctionName\<close>

text \<open>
  The loop \<^verbatim>\<open>for i := len(fullName) - 1; i >= 0; i-- { if fullName[i] == '.' { lastDotIndex = i; break } }\<close>
  with \<^verbatim>\<open>lastDotIndex := 0\<close> before it. \<open>lastDotLoop s n\<close> is the value of
  \<open>lastDotIndex\<close> after the loop when the loop variable starts at \<open>n - 1\<close>:
  at \<open>Suc i\<close> the loop variable is \<open>i\<close> (which is in range), at \<open>0\<close> it is \<open>-1\<close> and the
  loop is left with the initial value \<open>0\<close>.
\<close>

primrec lastDotLoop :: "string \<Rightarrow> nat \<Rightarrow> nat" where
  "lastDotLoop fullName 0 = 0"
| "lastDotLoop fullName (Suc i) =
     (if fullName ! i = CHR ''.'' then i else lastDotLoop fullName i)"

text \<open>
  After the loop the empty name returns the empty string; otherwise the slice
  \<^verbatim>\<open>fullName[lastDotIndex+1:]\<close> is taken. The slice cannot go out of range:
  \<open>lastDotIndex < len\<close> for a non-empty name.
\<close>

definition getFunctionName :: "string \<Rightarrow> string" where
  "getFunctionName fullName =
     (let lastDotIndex = lastDotLoop fullName (length fullName)
      in if fullName = [] then [] else drop (lastDotIndex + 1) fullName)"

subsection \<open>Wall-clock time and its layouts\<close>

text \<open>
  A \<^verbatim>\<open>time.Time\<close> value: the instant (\<open>unixNano\<close>, what \<^verbatim>\<open>Before\<close> compares) and the
  civil fields of that instant in the local zone (what \<^verbatim>\<open>Format\<close> prints).
\<close>

record gotime =
  unixNano :: int
  Year :: nat
  Month :: nat
  Day :: nat
  Hour :: nat
  Minute :: nat
  Second :: nat

definition Before :: "gotime \<Rightarrow> gotime \<Rightarrow> bool" where
  "Before t u = (unixNano t < unixNano u)"

definition digitChar :: "nat \<Rightarrow> char" where
  "digitChar d = ''0123456789'' ! d"

text \<open>Decimal digits of a natural number, most significant first.\<close>

fun itoaNat :: "nat \<Rightarrow> string" where
  "itoaNat n =
     (if n < 10 then [digitChar n] else itoaNat (n div 10) @ [digitChar (n mod 10)])"

declare itoaNat.simps [simp del]

text \<open>The verb \<^verbatim>\<open>%d\<close> on a Go \<^verbatim>\<open>int\<close>.\<close>

definition itoa :: "int \<Rightarrow> string" where
  "itoa i = (if i < 0 then CHR ''-'' # itoaNat (nat (- i)) else itoaNat (nat i))"

text \<open>
  \<^verbatim>\<open>appendInt(b, x, width)\<close> of package time, for the non-negative fields of a civil
  time: the decimal digits of \<open>x\<close>, padded with zeros on the left up to \<open>width\<close>.
\<close>

definition appendInt :: "nat \<Rightarrow> nat \<Rightarrow> string" where
  "appendInt x width =
     (let ds = itoaNat x in replicate (width - length ds) (CHR ''0'') @ ds)"

text \<open>\<^verbatim>\<open>t.Format("2006-01-02")\<close>\<close>

definition Format_2006_01_02 :: "gotime \<Rightarrow> string" where
  "Format_2006_01_02 t =
     appendInt (Year t) 4 @ ''-'' @ appendInt (Month t) 2 @ ''-'' @ appendInt (Day t) 2"

text \<open>\<^verbatim>\<open>t.Format("2006-01-02 15:04:05")\<close>\<close>

definition Format_2006_01_02_15_04_05 :: "gotime \<Rightarrow> string" where
  "Format_2006_01_02_15_04_05 t =
     appendInt (Year t) 4 @ ''-'' @ appendInt (Month t) 2 @ ''-'' @ appendInt (Day t) 2
     @ '' '' @ appendInt (Hour t) 2 @ '':'' @ appendInt (Minute t) 2 @ '':''
     @ appendInt (Second t) 2"

definition formatLogFileName :: "gotime \<Rightarrow> string" where
  "formatLogFileName data = Format_2006_01_02 data @ ''.log''"

subsection \<open>fmt.Sprintf, for the verbs the logger uses\<close>

datatype fmtArg = S string | D int

definition newline :: string where
  "newline = [CHR 0x0A]"

text \<open>
  The logger's format strings use \<^verbatim>\<open>%s\<close> with string operands and \<^verbatim>\<open>%d\<close> with an
  \<^verbatim>\<open>int\<close> operand only. A verb with an operand of the other type, or with no operand
  left, prints Go's bad-verb marker, abbreviated here.
\<close>

fun formatVerb :: "char \<Rightarrow> fmtArg \<Rightarrow> string" where
  "formatVerb v (S s) = (if v = CHR ''s'' then s else ''%!'' @ [v] @ ''(string)'')"
| "formatVerb v (D i) = (if v = CHR ''d'' then itoa i else ''%!'' @ [v] @ ''(int)'')"

fun Sprintf :: "string \<Rightarrow> fmtArg list \<Rightarrow> string" where
  "Sprintf [] args = []"
| "Sprintf [c] args = (if c = CHR ''%'' then ''%!(NOVERB)'' else [c])"
| "Sprintf (c # v # rest) args =
     (if c = CHR ''%'' then
        (case args of
           [] \<Rightarrow> ''%!'' @ [v] @ ''(MISSING)'' @ Sprintf rest []
         | a # args' \<Rightarrow> formatVerb v a @ Sprintf rest args')
      else c # Sprintf (v # rest) args)"

subsection \<open>Log levels and the logger's state\<close>

definition Debug :: int where "Debug = 1"
definition Info :: int where "Info = 2"
definition Error :: int where "Error = 3"

text \<open>
  A buffered channel of strings: the buffered elements in arrival order, the capacity
  given to \<^verbatim>\<open>make\<close>, and whether \<^verbatim>\<open>close\<close> has been called.
\<close>

record chan =
  buf :: "string list"
  cap :: nat
  closed :: bool

text \<open>
  The struct \<^verbatim>\<open>Log\<close>. \<open>currentFile\<close> is a \<^verbatim>\<open>*os.File\<close>: \<open>None\<close> is nil, \<open>Some h\<close> is
  the file value number \<open>h\<close> of the world below. \<open>logChannels\<close> is \<open>None\<close> for the nil
  channel of a \<open>Log\<close> that was never initialised. \<open>MaxDay\<close> is an \<^verbatim>\<open>int64\<close>. The mutex
  is only taken inside \<open>createLogFile\<close>, which a single writer task calls, so locking
  never blocks and it has no field here.
\<close>

record Log =
  LogLevel :: int
  FilePath :: string
  MaxDay :: "64 word"
  currentFile :: "nat option"
  currentDate :: string
  logChannels :: "chan option"

text \<open>\<^verbatim>\<open>new(Log)\<close>: every field has its zero value.\<close>

definition NewLogger :: Log where
  "NewLogger = \<lparr>LogLevel = 0, FilePath = [], MaxDay = 0, currentFile = None,
     currentDate = [], logChannels = None\<rparr>"

subsection \<open>The world outside the logger\<close>

text \<open>Tasks started with \<^verbatim>\<open>go\<close>: the retention sweep closure and the writer.\<close>

datatype task = ClearOldLogsTask | LogWriteToFileTask

text \<open>
  What the logger reads from and writes to its environment:
  \<^item> \<open>clock\<close>, \<open>tick\<close>: the successive readings of \<^verbatim>\<open>time.Now()\<close>;
  \<^item> \<open>absPath\<close>, \<open>mkdirAllErr\<close>, \<open>openFileErr\<close>, \<open>removeErr\<close>: the results of
    \<^verbatim>\<open>filepath.Abs\<close> and the errors of \<^verbatim>\<open>os.MkdirAll\<close>, \<^verbatim>\<open>os.OpenFile\<close> and \<^verbatim>\<open>os.Remove\<close>
    (errors are their messages);
  \<^item> \<open>addDate\<close>: \<^verbatim>\<open>Time.AddDate\<close> of the standard library;
  \<^item> \<open>joinPath\<close>: \<^verbatim>\<open>filepath.Join\<close> of the standard library, which joins a directory's
    path and an entry's name and cleans the result;
  \<^item> \<open>disk\<close>: the contents of the regular files, by path;
  \<^item> \<open>files\<close>: the \<^verbatim>\<open>os.File\<close> values created so far, each with its path and whether
    it is still open;
  \<^item> \<open>removed\<close>: the paths on which \<^verbatim>\<open>os.Remove\<close> has succeeded, in order;
  \<^item> \<open>stdout\<close>: the bytes printed with package fmt; \<open>logOutput\<close>: the messages printed
    with package log (without its time prefix);
  \<^item> \<open>goroutines\<close>: the tasks started so far.
\<close>

record world =
  clock :: "nat \<Rightarrow> gotime"
  tick :: nat
  absPath :: "string \<Rightarrow> string + string"
  mkdirAllErr :: "string \<Rightarrow> string option"
  openFileErr :: "string \<Rightarrow> string option"
  removeErr :: "string \<Rightarrow> string option"
  addDate :: "gotime \<Rightarrow> int \<Rightarrow> int \<Rightarrow> int \<Rightarrow> gotime"
  joinPath :: "string \<Rightarrow> string \<Rightarrow> string"
  disk :: "string \<Rightarrow> string option"
  files :: "(string \<times> bool) list"
  removed :: "string list"
  stdout :: string
  logOutput :: "string list"
  goroutines :: "task list"

text \<open>
  How a call ends: it returns; it is suspended in a send, holding the message it is
  sending (\<open>Sending\<close>); it is suspended in a receive (\<open>Blocked\<close>); it panics; or
  \<^verbatim>\<open>log.Fatal\<close> ends the process. Each carries the state reached at that point.
\<close>

datatype 'a outcome =
    Return 'a
  | Sending string 'a
  | Blocked 'a
  | Panic string 'a
  | Fatal string 'a

text \<open>The state a call has reached, however it ended.\<close>

fun stateOf :: "'a outcome \<Rightarrow> 'a" where
  "stateOf (Return s) = s"
| "stateOf (Sending message s) = s"
| "stateOf (Blocked s) = s"
| "stateOf (Panic msg s) = s"
| "stateOf (Fatal msg s) = s"

text \<open>\<^verbatim>\<open>time.Now()\<close>\<close>

definition now :: "world \<Rightarrow> gotime \<times> world" where
  "now w = (clock w (tick w), w\<lparr>tick := Suc (tick w)\<rparr>)"

text \<open>
  \<^verbatim>\<open>os.OpenFile(path, os.O_CREATE|os.O_APPEND|os.O_WRONLY, 0666)\<close>: the file is created
  empty when absent; the result is the error or the new file value.
\<close>

definition OpenFile :: "string \<Rightarrow> world \<Rightarrow> (string + nat) \<times> world" where
  "OpenFile path w =
     (case openFileErr w path of
        Some e \<Rightarrow> (Inl e, w)
      | None \<Rightarrow>
          (Inr (length (files w)),
           w\<lparr>disk := (case disk w path of None \<Rightarrow> (disk w)(path \<mapsto> []) | Some c \<Rightarrow> disk w),
             files := files w @ [(path, True)]\<rparr>))"

text \<open>\<^verbatim>\<open>(*os.File).Close\<close>: an error on a file value that is not open.\<close>

definition fileClose :: "nat \<Rightarrow> world \<Rightarrow> string option \<times> world" where
  "fileClose h w =
     (if h < length (files w) \<and> snd (files w ! h)
      then (None, w\<lparr>files := (files w)[h := (fst (files w ! h), False)]\<rparr>)
      else (Some ''file already closed'', w))"

text \<open>
  \<^verbatim>\<open>(*os.File).WriteString\<close> in append mode: an error on the nil file and on a file value
  that is not open, otherwise the bytes are appended to the file's contents.
\<close>

definition WriteString :: "nat option \<Rightarrow> string \<Rightarrow> world \<Rightarrow> string option \<times> world" where
  "WriteString f s w =
     (case f of
        None \<Rightarrow> (Some ''invalid argument'', w)
      | Some h \<Rightarrow>
          if h < length (files w) \<and> snd (files w ! h)
          then (None, w\<lparr>disk := (case disk w (fst (files w ! h)) of
                                  None \<Rightarrow> disk w
                                | Some c \<Rightarrow> (disk w)(fst (files w ! h) \<mapsto> c @ s))\<rparr>)
          else (Some ''file already closed'', w))"


text \<open>\<^verbatim>\<open>os.Remove\<close>\<close>

definition Remove :: "string \<Rightarrow> world \<Rightarrow> string option \<times> world" where
  "Remove path w =
     (case removeErr w path of
        Some e \<Rightarrow> (Some e, w)
      | None \<Rightarrow> (None, w\<lparr>disk := (disk w)(path := None), removed := removed w @ [path]\<rparr>))"

subsection \<open>Channel operations\<close>

text \<open>
  \<^verbatim>\<open>ch <- message\<close>: a nil channel blocks for ever, a closed channel panics, a full
  buffer blocks, otherwise the message is appended to the buffer. A sender that is
  blocked keeps its message.
\<close>

definition chanSend :: "Log \<Rightarrow> string \<Rightarrow> world \<Rightarrow> (Log \<times> world) outcome" where
  "chanSend l message w =
     (case logChannels l of
        None \<Rightarrow> Sending message (l, w)
      | Some c \<Rightarrow>
          if closed c then Panic ''send on closed channel'' (l, w)
          else if length (buf c) < cap c
          then Return (l\<lparr>logChannels := Some (c\<lparr>buf := buf c @ [message]\<rparr>)\<rparr>, w)
          else Sending message (l, w))"

text \<open>
  A suspended call goes on when it is scheduled again: a call suspended in a send
  tries the send of the message it holds once more, in the state the logger and the
  world have by then. In every other case there is nothing to go on with.
\<close>

definition resume :: "(Log \<times> world) outcome \<Rightarrow> Log \<times> world \<Rightarrow> (Log \<times> world) outcome" where
  "resume r current =
     (case r of
        Sending message suspended \<Rightarrow> chanSend (fst current) message (snd current)
      | other \<Rightarrow> other)"

text \<open>
  One receive of \<^verbatim>\<open>for logline := range ch\<close>: the oldest buffered element, or the end of
  the loop when the channel is closed and empty, or a wait.
\<close>

datatype recv = Received string chan | RangeDone | RecvBlocked

definition chanRecv :: "chan option \<Rightarrow> recv" where
  "chanRecv ch =
     (case ch of
        None \<Rightarrow> RecvBlocked
      | Some c \<Rightarrow>
          (case buf c of
             logline # rest \<Rightarrow> Received logline (c\<lparr>buf := rest\<rparr>)
           | [] \<Rightarrow> if closed c then RangeDone else RecvBlocked))"

subsection \<open>Initialisation\<close>

definition InitLogger :: "Log \<Rightarrow> world \<Rightarrow> Log \<times> world" where
  "InitLogger l w =
     (l\<lparr>LogLevel := Info, MaxDay := 7, FilePath := ''.'',
        logChannels := Some \<lparr>buf = [], cap = 3000, closed = False\<rparr>\<rparr>,
      w\<lparr>goroutines := goroutines w @ [ClearOldLogsTask]\<rparr>)"

definition relativePathToAbsPath :: "string \<Rightarrow> world \<Rightarrow> string \<times> world" where
  "relativePathToAbsPath Path w =
     (case absPath w Path of
        Inl err \<Rightarrow>
          ([], w\<lparr>stdout := stdout w @ ''Failed to get absolute path: '' @ err @ newline\<rparr>)
      | Inr absolutePath \<Rightarrow>
          (absolutePath, w\<lparr>stdout := stdout w @ absolutePath @ newline\<rparr>))"

text \<open>The \<^verbatim>\<open>switch Level\<close> of \<open>SetLogger\<close>, which has no default case.\<close>

definition switchLevel :: "int \<Rightarrow> Log \<Rightarrow> Log" where
  "switchLevel Level l =
     (if Level = Debug then l\<lparr>LogLevel := Debug\<rparr>
      else if Level = Info then l\<lparr>LogLevel := Info\<rparr>
      else if Level = Error then l\<lparr>LogLevel := Error\<rparr>
      else l)"

definition SetLogger :: "Log \<Rightarrow> int \<Rightarrow> string \<Rightarrow> 64 word \<Rightarrow> world \<Rightarrow> (Log \<times> world) outcome" where
  "SetLogger l0 Level FilePath' MaxDay' w0 =
     (let (l1, w1) = InitLogger l0 w0;
          l2 = (if Level \<noteq> 0 then switchLevel Level l1 else l1)
      in case (if FilePath' \<noteq> [] then mkdirAllErr w1 FilePath' else None) of
           Some err \<Rightarrow> Fatal err (l2, w1)
         | None \<Rightarrow>
           let l3 = (if FilePath' \<noteq> [] then l2\<lparr>FilePath := FilePath'\<rparr> else l2);
               (p, w2) = relativePathToAbsPath (FilePath l3) w1;
               l4 = l3\<lparr>FilePath := p\<rparr>;
               l5 = l4\<lparr>MaxDay := MaxDay'\<rparr>;
               (t1, w3) = now w2;
               FileName = formatLogFileName t1;
               (r, w4) = OpenFile (FilePath l5 @ ''/'' @ FileName) w3
           in case r of
                Inl err \<Rightarrow> Fatal err (l5, w4)
              | Inr File \<Rightarrow>
                  let l6 = l5\<lparr>currentFile := Some File\<rparr>;
                      (t2, w5) = now w4;
                      l7 = l6\<lparr>currentDate := formatLogFileName t2\<rparr>
                  in Return (l7, w5\<lparr>goroutines := goroutines w5 @ [LogWriteToFileTask]\<rparr>))"

subsection \<open>Rotation and the writer task\<close>

definition createLogFile :: "Log \<Rightarrow> gotime \<Rightarrow> world \<Rightarrow> (Log \<times> world) outcome" where
  "createLogFile l date w =
     (let w1 = (case currentFile l of None \<Rightarrow> w | Some h \<Rightarrow> snd (fileClose h w));
          (t, w2) = now w1;
          FileName = formatLogFileName t;
          (r, w3) = OpenFile (FilePath l @ ''/'' @ FileName) w2
      in case r of
           Inl err \<Rightarrow> Fatal err (l, w3)
         | Inr File \<Rightarrow>
             Return (l\<lparr>currentFile := Some File, currentDate := Format_2006_01_02 date\<rparr>, w3))"

text \<open>The body of the writer's loop for one received \<open>logline\<close>.\<close>

definition logWriteToFile_body :: "Log \<Rightarrow> string \<Rightarrow> world \<Rightarrow> (Log \<times> world) outcome" where
  "logWriteToFile_body l logline w =
     (if logline \<noteq> [] then
        let (t, w1) = now w;
            currentDate' = Format_2006_01_02 t
        in case (if currentDate' \<noteq> currentDate l
                 then (let (t2, w2) = now w1 in createLogFile l t2 w2)
                 else Return (l, w1)) of
             Return (l', w3) \<Rightarrow>
               let (ignored, w4) = WriteString (currentFile l') logline w3
               in Return (l', w4\<lparr>goroutines := goroutines w4 @ [ClearOldLogsTask]\<rparr>)
           | other \<Rightarrow> other
      else Return (l, w))"

text \<open>
  One turn of the writer task: a receive and, when it yields a line, the body. A
  schedule interleaves such turns with the calls of the producers.
\<close>

definition logWriteToFile_turn :: "Log \<Rightarrow> world \<Rightarrow> (Log \<times> world) outcome" where
  "logWriteToFile_turn l w =
     (case chanRecv (logChannels l) of
        RecvBlocked \<Rightarrow> Blocked (l, w)
      | RangeDone \<Rightarrow> Return (l, w)
      | Received logline c \<Rightarrow> logWriteToFile_body (l\<lparr>logChannels := Some c\<rparr>) logline w)"

subsection \<open>The producers\<close>

definition GetLevelString :: "Log \<Rightarrow> string" where
  "GetLevelString l =
     (if LogLevel l = Debug then ''Debug''
      else if LogLevel l = Info then ''Info''
      else if LogLevel l = Error then ''Error''
      else [])"

text \<open>
  What \<^verbatim>\<open>runtime.Caller(3)\<close> and \<^verbatim>\<open>runtime.FuncForPC(pc).Name()\<close> report for a call of
  \<open>Infof\<close> or \<open>Errorf\<close>.
\<close>

record callerInfo =
  callerFunc :: string
  callerFile :: string
  callerLine :: int

definition logWithCallerInfo :: "Log \<Rightarrow> callerInfo \<Rightarrow> string \<Rightarrow> world \<Rightarrow> string \<times> world" where
  "logWithCallerInfo l caller logline w =
     (let Level = GetLevelString l;
          (t, w1) = now w
      in (Sprintf (''[%s][%s] fileLine:%s:%d funcName:%s;message:%s'' @ newline)
            [S Level, S (Format_2006_01_02_15_04_05 t), S (callerFile caller), D (callerLine caller),
             S (getFunctionName (callerFunc caller)), S logline],
          w1))"

text \<open>
  \<open>formatted\<close> is the value of \<^verbatim>\<open>fmt.Sprintf(format, a...)\<close> for the caller's format and
  operands.
\<close>

definition syncWriteLog :: "Log \<Rightarrow> callerInfo \<Rightarrow> string \<Rightarrow> world \<Rightarrow> (Log \<times> world) outcome" where
  "syncWriteLog l caller formatted w =
     (let (message, w1) = logWithCallerInfo l caller formatted w
      in chanSend l message w1)"

definition Errorf :: "Log \<Rightarrow> callerInfo \<Rightarrow> string \<Rightarrow> world \<Rightarrow> (Log \<times> world) outcome" where
  "Errorf l caller formatted w = syncWriteLog (l\<lparr>LogLevel := Error\<rparr>) caller formatted w"

definition Infof :: "Log \<Rightarrow> callerInfo \<Rightarrow> string \<Rightarrow> world \<Rightarrow> (Log \<times> world) outcome" where
  "Infof l caller formatted w = syncWriteLog l caller formatted w"

subsection \<open>Shutdown\<close>

text \<open>\<^verbatim>\<open>close(ch)\<close> panics on a nil and on a closed channel.\<close>

definition Close :: "Log \<Rightarrow> world \<Rightarrow> (Log \<times> world) outcome" where
  "Close l w =
     (case logChannels l of
        None \<Rightarrow> Panic ''close of nil channel'' (l, w)
      | Some c \<Rightarrow>
          if closed c then Panic ''close of closed channel'' (l, w)
          else
            let l1 = l\<lparr>logChannels := Some (c\<lparr>closed := True\<rparr>)\<rparr>
            in case currentFile l1 of
                 None \<Rightarrow> Return (l1, w)
               | Some h \<Rightarrow> Return (l1, snd (fileClose h w)))"

subsection \<open>The writer's loop\<close>

text \<open>Neither rotation nor the loop body touches the channel.\<close>

lemma createLogFile_logChannels:
  "createLogFile l date w = Return (l', w') \<Longrightarrow> logChannels l' = logChannels l"
  by (auto simp: createLogFile_def Let_def split: prod.splits sum.splits)

lemma logWriteToFile_body_logChannels:
  "logWriteToFile_body l logline w = Return (l', w') \<Longrightarrow> logChannels l' = logChannels l"
  by (auto simp: logWriteToFile_body_def Let_def
      split: if_splits prod.splits outcome.splits dest: createLogFile_logChannels)

text \<open>
  \<^verbatim>\<open>for logline := range l.logChannels { ... }\<close> run while no producer is scheduled: it
  ends when the channel is closed and drained (\<open>Return\<close>), waits on an empty open
  channel (\<open>Blocked\<close>), or the process exits in rotation (\<open>Fatal\<close>).
\<close>

function logWriteToFile :: "Log \<Rightarrow> world \<Rightarrow> (Log \<times> world) outcome" where
  "logWriteToFile l w =
     (case chanRecv (logChannels l) of
        RecvBlocked \<Rightarrow> Blocked (l, w)
      | RangeDone \<Rightarrow> Return (l, w)
      | Received logline c \<Rightarrow>
          (case logWriteToFile_body (l\<lparr>logChannels := Some c\<rparr>) logline w of
             Return (l', w') \<Rightarrow> logWriteToFile l' w'
           | other \<Rightarrow> other))"
  by pat_completeness auto
termination
proof (relation "measure (\<lambda>(l, w). case logChannels l of None \<Rightarrow> 0 | Some c \<Rightarrow> length (buf c))")
  show "wf (measure (\<lambda>(l, w). case logChannels l of None \<Rightarrow> 0 | Some c \<Rightarrow> length (buf c)))"
    by simp
next
  fix l :: Log and w :: world and logline c x l' w'
  assume r: "chanRecv (logChannels l) = Received logline c"
    and b: "logWriteToFile_body (l\<lparr>logChannels := Some c\<rparr>) logline w = Return x"
    and x: "(l', w') = x"
  from b x have "logChannels l' = Some c"
    using logWriteToFile_body_logChannels [of "l\<lparr>logChannels := Some c\<rparr>" logline w l' w']
    by simp
  moreover from r obtain c0 where "logChannels l = Some c0" "length (buf c) < length (buf c0)"
    by (auto simp: chanRecv_def split: option.splits list.splits if_splits)
  ultimately show "((l', w'), (l, w)) \<in>
      measure (\<lambda>(l, w). case logChannels l of None \<Rightarrow> 0 | Some c \<Rightarrow> length (buf c))"
    by simp
qed

declare logWriteToFile.simps [simp del]

subsection \<open>The retention sweep\<close>

text \<open>
  What \<^verbatim>\<open>os.Lstat\<close> and the directory reads of \<^verbatim>\<open>filepath.Walk\<close> report during one walk:
  an entry whose \<^verbatim>\<open>Lstat\<close> fails, an entry that is not a directory, or a directory with
  the error of reading it (if any) and its entries in lexical order. The first
  component is the entry's name, the \<open>gotime\<close> its modification time.
\<close>

datatype fsnode =
    NoInfo string string
  | File string gotime
  | Dir string gotime "string option" "fsnode list"

fun nodeName :: "fsnode \<Rightarrow> string" where
  "nodeName (NoInfo name err) = name"
| "nodeName (File name mt) = name"
| "nodeName (Dir name mt rderr entries) = name"

record fileInfo =
  IsDir :: bool
  ModTime :: gotime

text \<open>
  \<^verbatim>\<open>filepath.Walk\<close>: \<open>walk\<close> visits one entry, \<open>walkNames\<close> the entries of a directory in
  order. An entry whose \<^verbatim>\<open>Lstat\<close> failed is passed to the function with the error and
  no \<open>fileInfo\<close>; a directory is passed with the error of reading it, and is only
  descended into when neither that error nor the function's result is an error. The
  first error returned ends the walk. (The logger's function never returns
  \<^verbatim>\<open>SkipDir\<close> or \<^verbatim>\<open>SkipAll\<close>.) The path of an entry is \<^verbatim>\<open>filepath.Join\<close> of the
  directory's path and the entry's name; \<open>join\<close> is that function.
\<close>

fun walk :: "(string \<Rightarrow> string \<Rightarrow> string)
      \<Rightarrow> (string \<Rightarrow> fileInfo option \<Rightarrow> string option \<Rightarrow> world \<Rightarrow> string option \<times> world)
      \<Rightarrow> string \<Rightarrow> fsnode \<Rightarrow> world \<Rightarrow> string option \<times> world"
  and walkNames :: "(string \<Rightarrow> string \<Rightarrow> string)
      \<Rightarrow> (string \<Rightarrow> fileInfo option \<Rightarrow> string option \<Rightarrow> world \<Rightarrow> string option \<times> world)
      \<Rightarrow> string \<Rightarrow> fsnode list \<Rightarrow> world \<Rightarrow> string option \<times> world" where
  "walk join fn path (NoInfo name err) w = fn path None (Some err) w"
| "walk join fn path (File name mt) w = fn path (Some \<lparr>IsDir = False, ModTime = mt\<rparr>) None w"
| "walk join fn path (Dir name mt rderr entries) w =
     (case fn path (Some \<lparr>IsDir = True, ModTime = mt\<rparr>) rderr w of
        (err1, w1) \<Rightarrow>
          if rderr \<noteq> None \<or> err1 \<noteq> None then (err1, w1)
          else walkNames join fn path entries w1)"
| "walkNames join fn path [] w = (None, w)"
| "walkNames join fn path (entry # rest) w =
     (case walk join fn (join path (nodeName entry)) entry w of
        (Some err, w1) \<Rightarrow> (Some err, w1)
      | (None, w1) \<Rightarrow> walkNames join fn path rest w1)"

text \<open>
  The function \<open>clearOldLogs\<close> passes to \<^verbatim>\<open>filepath.Walk\<close>. (The walk never calls it
  without both an error and a \<open>fileInfo\<close>; Go would panic there.)
\<close>

definition clearOldLogs_fn ::
    "gotime \<Rightarrow> string \<Rightarrow> fileInfo option \<Rightarrow> string option \<Rightarrow> world \<Rightarrow> string option \<times> world" where
  "clearOldLogs_fn cutoffDate path info err w =
     (case err of
        Some e \<Rightarrow> (Some e, w)
      | None \<Rightarrow>
          (case info of
             None \<Rightarrow> (Some ''invalid memory address or nil pointer dereference'', w)
           | Some i \<Rightarrow>
               if IsDir i then (None, w)
               else if Before (ModTime i) cutoffDate then
                 (case (if suffix ''.log'' path then Remove path w else (None, w)) of
                    (Some e, w1) \<Rightarrow> (Some e, w1)
                  | (None, w1) \<Rightarrow>
                      (None, w1\<lparr>logOutput := logOutput w1 @
                         [Sprintf (''Removed log file: %s'' @ newline) [S path]]\<rparr>))
               else (None, w)))"

text \<open>
  \<open>root\<close> is what the walk finds at \<open>FilePath\<close>. \<^verbatim>\<open>-int(l.MaxDay)\<close> is the negation of a
  64-bit integer (\<^verbatim>\<open>int\<close> has 64 bits), which wraps around at the least value.
\<close>

definition clearOldLogs :: "Log \<Rightarrow> fsnode \<Rightarrow> world \<Rightarrow> string option \<times> world" where
  "clearOldLogs l root w =
     (let (t, w1) = now w;
          cutoffDate = addDate w1 t 0 0 (sint (- MaxDay l));
          (err, w2) = walk (joinPath w1) (clearOldLogs_fn cutoffDate) (FilePath l) root w1
      in case err of
           Some e \<Rightarrow> (Some (''failed to clear old logs:'' @ e), w2)
         | None \<Rightarrow> (None, w2))"

subsection \<open>The formats as the specification writes them\<close>

text \<open>
  The specification's \<^verbatim>\<open>YYYY-MM-DD\<close>, \<^verbatim>\<open>HH:MM:SS\<close> and line format, digit by digit,
  to compare the layouts above with: four digits of the year, two of every other
  field.
\<close>

definition spec_date :: "gotime \<Rightarrow> string" where
  "spec_date t =
     [digitChar (Year t div 1000), digitChar (Year t div 100 mod 10),
      digitChar (Year t div 10 mod 10), digitChar (Year t mod 10), CHR ''-'',
      digitChar (Month t div 10), digitChar (Month t mod 10), CHR ''-'',
      digitChar (Day t div 10), digitChar (Day t mod 10)]"

definition spec_clock :: "gotime \<Rightarrow> string" where
  "spec_clock t =
     [digitChar (Hour t div 10), digitChar (Hour t mod 10), CHR '':'',
      digitChar (Minute t div 10), digitChar (Minute t mod 10), CHR '':'',
      digitChar (Second t div 10), digitChar (Second t mod 10)]"



text \<open>The civil fields \<^verbatim>\<open>time.Now()\<close> can have, for years of four digits.\<close>

definition civil :: "gotime \<Rightarrow> bool" where
  "civil t = (Year t < 10000 \<and> 1 \<le> Month t \<and> Month t \<le> 12 \<and> 1 \<le> Day t \<and> Day t \<le> 31
     \<and> Hour t < 24 \<and> Minute t < 60 \<and> Second t < 60)"

subsection \<open>Concrete inputs\<close>

text \<open>
  A clock that stands at 2024-03-05 14:07:09 (every reading is on the same day), an
  environment in which no system call fails, a call site and an initialised logger.
  The example's \<open>addDate\<close> moves the instant by days of 24 hours and leaves the civil
  fields alone; the sweep only compares instants. Its \<open>joinPath\<close>, \<open>slashJoin\<close>, puts a
  separator between the two parts, which is what \<^verbatim>\<open>filepath.Join\<close> gives for the cleaned absolute
  directory and the plain names of the examples.
\<close>

definition slashJoin :: "string \<Rightarrow> string \<Rightarrow> string" where
  "slashJoin path name = path @ ''/'' @ name"

definition exampleTime :: gotime where
  "exampleTime = \<lparr>unixNano = 1709647629000000000, Year = 2024, Month = 3, Day = 5,
     Hour = 14, Minute = 7, Second = 9\<rparr>"

definition exampleWorld :: world where
  "exampleWorld = \<lparr>clock = (\<lambda>n. exampleTime), tick = 0,
     absPath = (\<lambda>p. Inr (''/srv/'' @ p)),
     mkdirAllErr = (\<lambda>p. None), openFileErr = (\<lambda>p. None), removeErr = (\<lambda>p. None),
     addDate = (\<lambda>t years months days. t\<lparr>unixNano := unixNano t + days * 86400000000000\<rparr>),
     joinPath = slashJoin,
     disk = Map.empty, files = [], removed = [], stdout = [], logOutput = [],
     goroutines = []\<rparr>"

definition exampleCaller :: callerInfo where
  "exampleCaller = \<lparr>callerFunc = ''main.handler'', callerFile = ''/app/main.go'', callerLine = 42\<rparr>"

definition exampleLog :: Log where
  "exampleLog = \<lparr>LogLevel = Info, FilePath = ''/srv/logs'', MaxDay = 7, currentFile = None,
     currentDate = [], logChannels = Some \<lparr>buf = [], cap = 3000, closed = False\<rparr>\<rparr>"

text \<open>
  A line as \<open>Infof\<close> formats it; a world in which today's file is open and empty; a
  logger on that file whose queue holds 3000 lines.
\<close>

definition exampleLine :: string where
  "exampleLine =
     ''[Info][2024-03-05 14:07:09] fileLine:/app/main.go:42 funcName:handler;message:started''
     @ newline"

definition openWorld :: world where
  "openWorld = exampleWorld\<lparr>disk := [''/srv/logs/2024-03-05.log'' \<mapsto> []],
     files := [(''/srv/logs/2024-03-05.log'', True)]\<rparr>"

definition fullLog :: Log where
  "fullLog = exampleLog\<lparr>currentFile := Some 0, currentDate := ''2024-03-05'',
     logChannels := Some \<lparr>buf = replicate 3000 exampleLine, cap = 3000, closed = False\<rparr>\<rparr>"

text \<open>An environment in which \<^verbatim>\<open>filepath.Abs\<close> fails (the working directory is gone).\<close>

definition noAbsWorld :: world where
  "noAbsWorld = exampleWorld\<lparr>absPath := (\<lambda>p. Inl ''getwd: no such file or directory'')\<rparr>"

text \<open>
  The logger and the world after \<^verbatim>\<open>SetLogger(Info, "logs", 7)\<close> on a new \<open>Log\<close> in
  \<open>exampleWorld\<close>.
\<close>

definition configuredLog :: Log where
  "configuredLog = NewLogger\<lparr>LogLevel := Info, FilePath := ''/srv/logs'', MaxDay := 7,
     currentFile := Some 0, currentDate := ''2024-03-05.log'',
     logChannels := Some \<lparr>buf = [], cap = 3000, closed = False\<rparr>\<rparr>"

definition configuredWorld :: world where
  "configuredWorld = exampleWorld\<lparr>tick := 2, disk := [''/srv/logs/2024-03-05.log'' \<mapsto> []],
     files := [(''/srv/logs/2024-03-05.log'', True)], stdout := ''/srv/logs'' @ newline,
     goroutines := [ClearOldLogsTask, LogWriteToFileTask]\<rparr>"

text \<open>Sequencing: the next call runs when the one before has returned.\<close>

definition andThen :: "'a outcome \<Rightarrow> ('a \<Rightarrow> 'a outcome) \<Rightarrow> 'a outcome" where
  "andThen r f = (case r of Return s \<Rightarrow> f s | other \<Rightarrow> other)"

text \<open>The line \<open>Infof\<close> formats for a message at level \<open>Info\<close> in \<open>exampleWorld\<close>.\<close>

definition infoLine :: "string \<Rightarrow> string" where
  "infoLine message =
     ''[Info][2024-03-05 14:07:09] fileLine:/app/main.go:42 funcName:handler;message:''
     @ message @ newline"


text \<open>The same calls with \<open>Close\<close> before the writer's first turn.\<close>

definition earlyCloseScenario :: "(Log \<times> world) outcome" where
  "earlyCloseScenario =
     andThen (andThen (andThen (andThen
       (SetLogger NewLogger 2 ''logs'' 7 exampleWorld)
       (\<lambda>(l, w). Infof l exampleCaller ''first'' w))
       (\<lambda>(l, w). Infof l exampleCaller ''second'' w))
       (\<lambda>(l, w). Close l w))
       (\<lambda>(l, w). logWriteToFile l w)"

text \<open>The state of that schedule just before \<open>Close\<close>: the second line is in the queue.\<close>

definition pendingLog :: Log where
  "pendingLog = configuredLog\<lparr>currentFile := Some 1, currentDate := ''2024-03-05'',
     logChannels := Some \<lparr>buf = [infoLine ''second''], cap = 3000, closed = False\<rparr>\<rparr>"

definition pendingWorld :: world where
  "pendingWorld = configuredWorld\<lparr>tick := 7,
     disk := [''/srv/logs/2024-03-05.log'' \<mapsto> infoLine ''first''],
     files := [(''/srv/logs/2024-03-05.log'', False), (''/srv/logs/2024-03-05.log'', True)],
     goroutines := [ClearOldLogsTask, LogWriteToFileTask, ClearOldLogsTask]\<rparr>"

subsection \<open>The earlier, synchronous logger\<close>

text \<open>
  \<^verbatim>\<open>src/Logger/logger.go\<close> is an earlier copy of the logger, without the queue. Its
  \<open>clearOldLogs\<close> differs from the one above in one place: it removes a stale entry
  whatever its name. Its \<open>Errorf\<close> has an empty body.
\<close>

definition clearOldLogs_fn_sync ::
    "gotime \<Rightarrow> string \<Rightarrow> fileInfo option \<Rightarrow> string option \<Rightarrow> world \<Rightarrow> string option \<times> world" where
  "clearOldLogs_fn_sync cutoffDate path info err w =
     (case err of
        Some e \<Rightarrow> (Some e, w)
      | None \<Rightarrow>
          (case info of
             None \<Rightarrow> (Some ''invalid memory address or nil pointer dereference'', w)
           | Some i \<Rightarrow>
               if IsDir i then (None, w)
               else if Before (ModTime i) cutoffDate then
                 (case Remove path w of
                    (Some e, w1) \<Rightarrow> (Some e, w1)
                  | (None, w1) \<Rightarrow>
                      (None, w1\<lparr>logOutput := logOutput w1 @
                         [Sprintf (''Removed log file: %s'' @ newline) [S path]]\<rparr>))
               else (None, w)))"

definition clearOldLogs_sync :: "Log \<Rightarrow> fsnode \<Rightarrow> world \<Rightarrow> string option \<times> world" where
  "clearOldLogs_sync l root w =
     (let (t, w1) = now w;
          cutoffDate = addDate w1 t 0 0 (sint (- MaxDay l));
          (err, w2) = walk (joinPath w1) (clearOldLogs_fn_sync cutoffDate) (FilePath l) root w1
      in case err of
           Some e \<Rightarrow> (Some (''failed to clear old logs:'' @ e), w2)
         | None \<Rightarrow> (None, w2))"

definition Errorf_sync :: "Log \<Rightarrow> callerInfo \<Rightarrow> string \<Rightarrow> world \<Rightarrow> (Log \<times> world) outcome" where
  "Errorf_sync l caller formatted w = Return (l, w)"

subsection \<open>What a sweep is to delete\<close>

text \<open>
  The entries of a tree that are not directories, with the paths the walk gives them
  and their modification times, in the order of the walk.
\<close>

fun nonDirs :: "(string \<Rightarrow> string \<Rightarrow> string) \<Rightarrow> string \<Rightarrow> fsnode \<Rightarrow> (string \<times> gotime) list"
  and nonDirsIn :: "(string \<Rightarrow> string \<Rightarrow> string) \<Rightarrow> string \<Rightarrow> fsnode list
      \<Rightarrow> (string \<times> gotime) list" where
  "nonDirs join path (NoInfo name err) = []"
| "nonDirs join path (File name mt) = [(path, mt)]"
| "nonDirs join path (Dir name mt rderr entries) = nonDirsIn join path entries"
| "nonDirsIn join path [] = []"
| "nonDirsIn join path (entry # rest) =
     nonDirs join (join path (nodeName entry)) entry @ nonDirsIn join path rest"

text \<open>
  The specification's targets: the paths among them that were modified before the
  cutoff and end in the log suffix.
\<close>

definition expiredLogs :: "gotime \<Rightarrow> (string \<times> gotime) list \<Rightarrow> string list" where
  "expiredLogs cutoffDate fs =
     map fst (filter (\<lambda>(path, mt). Before mt cutoffDate \<and> suffix ''.log'' path) fs)"

text \<open>
  A walk over entries with targets \<open>targets\<close> has removed a prefix of them, all of them
  when it ended without error, and nothing else.
\<close>

definition sweepResult :: "string list \<Rightarrow> world \<Rightarrow> string option \<Rightarrow> world \<Rightarrow> bool" where
  "sweepResult targets w err w' =
     (\<exists>gone. prefix gone targets \<and> (err = None \<longrightarrow> gone = targets)
        \<and> removed w' = removed w @ gone
        \<and> disk w' = (\<lambda>p. if p \<in> set gone then None else disk w p))"

text \<open>
  A log directory with an expired log, a recent log, an expired file that is no log,
  and an expired log in a subdirectory; a world that holds them; a world in which the
  first of them cannot be removed; the cutoff seven days before \<open>exampleTime\<close>.
\<close>

definition oldTime :: gotime where
  "oldTime = \<lparr>unixNano = 1704067200000000000, Year = 2024, Month = 1, Day = 1,
     Hour = 0, Minute = 0, Second = 0\<rparr>"

definition recentTime :: gotime where
  "recentTime = \<lparr>unixNano = 1709561229000000000, Year = 2024, Month = 3, Day = 4,
     Hour = 14, Minute = 7, Second = 9\<rparr>"

definition exampleTree :: fsnode where
  "exampleTree = Dir ''logs'' recentTime None
     [File ''2024-01-01.log'' oldTime, File ''2024-03-04.log'' recentTime,
      File ''notes.txt'' oldTime, Dir ''sub'' oldTime None [File ''old.log'' oldTime]]"

definition sweepWorld :: world where
  "sweepWorld = exampleWorld\<lparr>disk :=
     [''/srv/logs/2024-01-01.log'' \<mapsto> ''a'', ''/srv/logs/2024-03-04.log'' \<mapsto> ''b'',
      ''/srv/logs/notes.txt'' \<mapsto> ''n'', ''/srv/logs/sub/old.log'' \<mapsto> ''o'']\<rparr>"

definition deniedWorld :: world where
  "deniedWorld = sweepWorld\<lparr>removeErr :=
     (\<lambda>p. if p = ''/srv/logs/2024-01-01.log'' then Some ''permission denied'' else None)\<rparr>"

definition exampleCutoff :: gotime where
  "exampleCutoff = exampleTime\<lparr>unixNano := 1709042829000000000\<rparr>"

text \<open>
  The log directory \<^verbatim>\<open>.\<close> that \<open>InitLogger\<close> sets: \<^verbatim>\<open>filepath.Join\<close> cleans the joined
  path, so the entry \<^verbatim>\<open>old.log\<close> of \<^verbatim>\<open>.\<close> has the path \<^verbatim>\<open>old.log\<close>.
\<close>

definition dotJoin :: "string \<Rightarrow> string \<Rightarrow> string" where
  "dotJoin path name = (if path = ''.'' then name else path @ ''/'' @ name)"

definition dotTree :: fsnode where
  "dotTree = Dir ''.'' recentTime None [File ''old.log'' oldTime]"

definition dotWorld :: world where
  "dotWorld = exampleWorld\<lparr>joinPath := dotJoin, disk := [''old.log'' \<mapsto> ''x'']\<rparr>"

section \<open>Properties\<close>

subsection \<open>The short function name\<close>

lemma lastDotLoop_no_separator:
  "CHR ''.'' \<notin> set s \<Longrightarrow> n \<le> length s \<Longrightarrow> lastDotLoop s n = 0"
proof (induction n)
  case 0
  then show ?case by simp
next
  case (Suc n)
  then have "s ! n \<in> set s" by simp
  with Suc have "s ! n \<noteq> CHR ''.''" by metis
  with Suc show ?case by simp
qed

lemma lastDotLoop_at_last_separator:
  "CHR ''.'' \<notin> set r \<Longrightarrow> k \<le> length r \<Longrightarrow>
     lastDotLoop (p @ CHR ''.'' # r) (Suc (length p + k)) = length p"
proof (induction k)
  case 0
  then show ?case by simp
next
  case (Suc k)
  then have "r ! k \<in> set r" by simp
  with Suc have "r ! k \<noteq> CHR ''.''" by metis
  with Suc show ?case
    by (simp add: nth_append)
qed

lemma getFunctionName_split:
  assumes "CHR ''.'' \<notin> set r"
  shows "getFunctionName (p @ CHR ''.'' # r) = r"
proof -
  have "lastDotLoop (p @ CHR ''.'' # r) (Suc (length p + length r)) = length p"
    using assms by (rule lastDotLoop_at_last_separator) simp
  then show ?thesis
    by (simp add: getFunctionName_def)
qed

text \<open>
  C8. For a fully qualified function name, that is one with a separator \<open>.\<close> in it, the
  short name \<open>getFunctionName\<close> returns is the part after the last separator: the name
  is some prefix, a separator and the short name, and the short name has no separator.
\<close>

theorem getFunctionName_after_last_separator:
  assumes "CHR ''.'' \<in> set fullName"
  shows "(\<exists>p. fullName = p @ CHR ''.'' # getFunctionName fullName)
       \<and> CHR ''.'' \<notin> set (getFunctionName fullName)"
proof -
  from assms obtain p r where s: "fullName = p @ CHR ''.'' # r" and r: "CHR ''.'' \<notin> set r"
    by (meson split_list_last)
  from r have "getFunctionName (p @ CHR ''.'' # r) = r"
    by (rule getFunctionName_split)
  with s r show ?thesis by auto
qed

theorem getFunctionName_after_last_separator_witness:
  "CHR ''.'' \<in> set ''pkg/log.(*Log).Infof''
   \<and> (\<exists>p. ''pkg/log.(*Log).Infof'' = p @ CHR ''.'' # getFunctionName ''pkg/log.(*Log).Infof'')
   \<and> CHR ''.'' \<notin> set (getFunctionName ''pkg/log.(*Log).Infof'')
   \<and> getFunctionName ''pkg/log.(*Log).Infof'' = ''Infof''"
proof -
  have h: "CHR ''.'' \<in> set ''pkg/log.(*Log).Infof''" by simp
  have v: "getFunctionName ''pkg/log.(*Log).Infof'' = ''Infof''"
    by (simp add: getFunctionName_def)
  from getFunctionName_after_last_separator [OF h] h v show ?thesis by blast
qed

text \<open>
  C10. On a name without a separator the loop leaves \<open>lastDotIndex = 0\<close>, so a non-empty
  name loses its first character; the empty name gives the empty string.
\<close>

theorem getFunctionName_without_separator:
  assumes "CHR ''.'' \<notin> set fullName"
  shows "getFunctionName fullName = (case fullName of [] \<Rightarrow> [] | c # rest \<Rightarrow> rest)"
proof -
  have "lastDotLoop fullName (length fullName) = 0"
    using assms by (rule lastDotLoop_no_separator) simp
  then show ?thesis
    by (simp add: getFunctionName_def split: list.splits)
qed

theorem getFunctionName_without_separator_witness:
  "CHR ''.'' \<notin> set ''main'' \<and> getFunctionName ''main'' = ''ain''
   \<and> CHR ''.'' \<notin> set [] \<and> getFunctionName [] = []"
proof -
  have h1: "CHR ''.'' \<notin> set ''main''" by simp
  have h2: "CHR ''.'' \<notin> set []" by simp
  from getFunctionName_without_separator [OF h1] getFunctionName_without_separator [OF h2] h1 h2
  show ?thesis by simp
qed

subsection \<open>The line and file name formats\<close>

lemma div10_div10: "(n::nat) div 10 div 10 = n div 100"
  by (simp add: div_mult2_eq[symmetric])

lemma div10_div100: "(n::nat) div 10 div 100 = n div 1000"
  by (simp add: div_mult2_eq[symmetric])

lemma itoaNat_1: "n < 10 \<Longrightarrow> itoaNat n = [digitChar n]"
  by (subst itoaNat.simps) simp

lemma itoaNat_2: "10 \<le> n \<Longrightarrow> n < 100 \<Longrightarrow> itoaNat n = [digitChar (n div 10), digitChar (n mod 10)]"
  by (subst itoaNat.simps) (simp add: itoaNat_1)

lemma itoaNat_3: "100 \<le> n \<Longrightarrow> n < 1000 \<Longrightarrow>
   itoaNat n = [digitChar (n div 100), digitChar (n div 10 mod 10), digitChar (n mod 10)]"
  by (subst itoaNat.simps) (simp add: itoaNat_2 div10_div10)

lemma itoaNat_4: "1000 \<le> n \<Longrightarrow> n < 10000 \<Longrightarrow>
   itoaNat n = [digitChar (n div 1000), digitChar (n div 100 mod 10), digitChar (n div 10 mod 10), digitChar (n mod 10)]"
  by (subst itoaNat.simps) (simp add: itoaNat_3 div10_div10 div10_div100)

lemma digitChar_0: "digitChar 0 = CHR ''0''"
  by (simp add: digitChar_def)

lemma replicate_1: "replicate (Suc 0) c = [c]" by simp
lemma replicate_2: "replicate 2 c = [c, c]" by (simp add: numeral_2_eq_2)
lemma replicate_3: "replicate 3 c = [c, c, c]" by (simp add: numeral_3_eq_3)

lemma appendInt_2: 
  assumes "n < 100" shows "appendInt n 2 = [digitChar (n div 10), digitChar (n mod 10)]"
proof (cases "n < 10")
  case True
  then show ?thesis by (simp add: appendInt_def itoaNat_1 digitChar_0)
next
  case False
  with assms show ?thesis by (simp add: appendInt_def itoaNat_2)
qed

lemma appendInt_4: 
  assumes "n < 10000" 
  shows "appendInt n 4 = [digitChar (n div 1000), digitChar (n div 100 mod 10), digitChar (n div 10 mod 10), digitChar (n mod 10)]"
proof -
  consider "n < 10" | "10 \<le> n" "n < 100" | "100 \<le> n" "n < 1000" | "1000 \<le> n" "n < 10000"
    using assms by linarith
  then show ?thesis
  proof cases
    case 1
    then show ?thesis by (simp add: appendInt_def itoaNat_1 digitChar_0 replicate_2 replicate_3)
  next
    case 2
    then show ?thesis by (simp add: appendInt_def itoaNat_2 digitChar_0 replicate_2 replicate_3)
  next
    case 3
    then show ?thesis by (simp add: appendInt_def itoaNat_3 digitChar_0 replicate_2 replicate_3)
  next
    case 4
    then show ?thesis by (simp add: appendInt_def itoaNat_4)
  qed
qed


lemma Format_date: "civil t \<Longrightarrow> Format_2006_01_02 t = spec_date t"
  by (simp add: civil_def Format_2006_01_02_def spec_date_def appendInt_2 appendInt_4)

lemma Format_ts: "civil t \<Longrightarrow> Format_2006_01_02_15_04_05 t = spec_date t @ '' '' @ spec_clock t"
  by (simp add: civil_def Format_2006_01_02_15_04_05_def spec_date_def spec_clock_def appendInt_2 appendInt_4)

lemma logWithCallerInfo_line: "fst (logWithCallerInfo l caller logline w) =
   ''['' @ GetLevelString l @ '']['' @ Format_2006_01_02_15_04_05 (clock w (tick w)) @ ''] fileLine:'' @ callerFile caller
   @ '':'' @ itoa (callerLine caller) @ '' funcName:'' @ getFunctionName (callerFunc caller)
   @ '';message:'' @ logline @ newline"
  by (simp add: logWithCallerInfo_def now_def Let_def newline_def)




lemma civil_exampleTime: "civil exampleTime"
  by (simp add: civil_def exampleTime_def)

lemma spec_date_exampleTime: "spec_date exampleTime = ''2024-03-05''"
  by (simp add: spec_date_def exampleTime_def digitChar_def)

lemma spec_clock_exampleTime: "spec_clock exampleTime = ''14:07:09''"
  by (simp add: spec_clock_def exampleTime_def digitChar_def)

lemma itoa_42: "itoa 42 = ''42''"
  by (simp add: itoa_def itoaNat_2 digitChar_def)

lemma getFunctionName_example: "getFunctionName ''main.handler'' = ''handler''"
  by (simp add: getFunctionName_def)


lemma logWithCallerInfo_infoLine:
  assumes "LogLevel l = Info" and "clock w (tick w) = exampleTime"
  shows "logWithCallerInfo l exampleCaller m w = (infoLine m, w\<lparr>tick := Suc (tick w)\<rparr>)"
proof -
  have "Format_2006_01_02_15_04_05 (clock w (tick w)) = ''2024-03-05 14:07:09''"
    using assms by (simp add: Format_ts civil_exampleTime spec_date_exampleTime
        spec_clock_exampleTime)
  then have "fst (logWithCallerInfo l exampleCaller m w) = infoLine m"
    using assms by (simp add: logWithCallerInfo_line exampleCaller_def itoa_42
        getFunctionName_example GetLevelString_def Info_def Debug_def infoLine_def)
  moreover have "snd (logWithCallerInfo l exampleCaller m w) = w\<lparr>tick := Suc (tick w)\<rparr>"
    by (simp add: logWithCallerInfo_def now_def Let_def)
  ultimately show ?thesis by (simp add: prod_eq_iff)
qed

lemma infoLine_nonempty: "infoLine m \<noteq> []"
  by (simp add: infoLine_def)

subsection \<open>The level after Errorf\<close>

lemma take7_Error_line:
  "LogLevel l = Error \<Longrightarrow> take 7 (fst (logWithCallerInfo l c m v)) = ''[Error]''"
  by (simp add: logWithCallerInfo_line GetLevelString_def Error_def Debug_def Info_def)

lemma stateOf_chanSend_LogLevel: "LogLevel (fst (stateOf (chanSend l m w))) = LogLevel l"
  by (simp add: chanSend_def split: option.splits)

lemma stateOf_syncWriteLog_LogLevel:
  "LogLevel (fst (stateOf (syncWriteLog l c m w))) = LogLevel l"
  by (simp add: syncWriteLog_def stateOf_chanSend_LogLevel split: prod.splits)

lemma syncWriteLog_Return:
  "syncWriteLog l c m w = Return (l', w') \<Longrightarrow>
     \<exists>ch. logChannels l = Some ch \<and> \<not> closed ch \<and> length (buf ch) < cap ch
       \<and> l' = l\<lparr>logChannels := Some (ch\<lparr>buf := buf ch @ [fst (logWithCallerInfo l c m w)]\<rparr>)\<rparr>
       \<and> w' = snd (logWithCallerInfo l c m w)"
  by (auto simp: syncWriteLog_def chanSend_def split: prod.splits option.splits if_splits)

text \<open>
  C3. Whatever way a call of \<open>Errorf\<close> ends (it returns, it waits on a full queue, it
  panics on a closed one), the logger's level is \<open>Error\<close> afterwards: the level string
  is \<^verbatim>\<open>Error\<close>, every line formatted from then on starts with the tag \<^verbatim>\<open>[Error]\<close>, a
  later \<open>Infof\<close> sees and keeps that level, and the line this call enqueued carries
  the tag too.
\<close>

theorem Errorf_sets_level_Error:
  assumes "stateOf (Errorf l caller formatted w) = (l', w')"
  shows "LogLevel l' = Error \<and> GetLevelString l' = ''Error''
       \<and> (\<forall>c m v. take 7 (fst (logWithCallerInfo l' c m v)) = ''[Error]'')
       \<and> (\<forall>c m v. LogLevel (fst (stateOf (Infof l' c m v))) = Error)
       \<and> (Errorf l caller formatted w = Return (l', w') \<longrightarrow>
            (\<exists>ch. logChannels l' = Some ch \<and> buf ch \<noteq> [] \<and> take 7 (last (buf ch)) = ''[Error]''))"
proof -
  have lv: "LogLevel l' = Error"
    using assms stateOf_syncWriteLog_LogLevel [of "l\<lparr>LogLevel := Error\<rparr>" caller formatted w]
    by (simp add: Errorf_def)
  then have s: "GetLevelString l' = ''Error''"
    by (simp add: GetLevelString_def Error_def Debug_def Info_def)
  have i: "LogLevel (fst (stateOf (Infof l' c m v))) = Error" for c m v
    using lv by (simp add: Infof_def stateOf_syncWriteLog_LogLevel)
  have e: "\<exists>ch. logChannels l' = Some ch \<and> buf ch \<noteq> [] \<and> take 7 (last (buf ch)) = ''[Error]''"
    if "Errorf l caller formatted w = Return (l', w')"
  proof -
    from that have "syncWriteLog (l\<lparr>LogLevel := Error\<rparr>) caller formatted w = Return (l', w')"
      by (simp add: Errorf_def)
    from syncWriteLog_Return [OF this] show ?thesis
      by (auto simp: take7_Error_line)
  qed
  from lv s i e take7_Error_line [OF lv] show ?thesis by blast
qed

lemma logWithCallerInfo_example:
  "fst (logWithCallerInfo (exampleLog\<lparr>LogLevel := Error\<rparr>) exampleCaller ''boom'' exampleWorld) =
   ''[Error][2024-03-05 14:07:09] fileLine:/app/main.go:42 funcName:handler;message:boom'' @ newline"
proof -
  have "Format_2006_01_02_15_04_05 (clock exampleWorld (tick exampleWorld)) = ''2024-03-05 14:07:09''"
    by (simp add: exampleWorld_def Format_ts civil_exampleTime spec_date_exampleTime
        spec_clock_exampleTime)
  then show ?thesis
    by (simp add: logWithCallerInfo_line exampleCaller_def itoa_42 getFunctionName_example
        GetLevelString_def exampleLog_def Info_def Debug_def Error_def)
qed

lemma Errorf_example:
  "Errorf exampleLog exampleCaller ''boom'' exampleWorld =
     Return (exampleLog\<lparr>LogLevel := Error, logChannels := Some \<lparr>buf =
        [''[Error][2024-03-05 14:07:09] fileLine:/app/main.go:42 funcName:handler;message:boom'' @ newline],
        cap = 3000, closed = False\<rparr>\<rparr>, exampleWorld\<lparr>tick := 1\<rparr>)"
proof -
  have "logWithCallerInfo (exampleLog\<lparr>LogLevel := Error\<rparr>) exampleCaller ''boom'' exampleWorld
     = (''[Error][2024-03-05 14:07:09] fileLine:/app/main.go:42 funcName:handler;message:boom'' @ newline, exampleWorld\<lparr>tick := 1\<rparr>)"
    using logWithCallerInfo_example by (simp add: logWithCallerInfo_def now_def Let_def exampleWorld_def)
  then show ?thesis
    by (simp add: Errorf_def syncWriteLog_def chanSend_def exampleLog_def)
qed

theorem Errorf_sets_level_Error_witness:
  "LogLevel exampleLog = Info \<and> Info \<noteq> Error
   \<and> Errorf exampleLog exampleCaller ''boom'' exampleWorld =
     Return (exampleLog\<lparr>LogLevel := Error, logChannels := Some \<lparr>buf =
        [''[Error][2024-03-05 14:07:09] fileLine:/app/main.go:42 funcName:handler;message:boom'' @ newline],
        cap = 3000, closed = False\<rparr>\<rparr>, exampleWorld\<lparr>tick := 1\<rparr>)
   \<and> LogLevel (fst (stateOf (Errorf exampleLog exampleCaller ''boom'' exampleWorld))) = Error
   \<and> GetLevelString (fst (stateOf (Errorf exampleLog exampleCaller ''boom'' exampleWorld))) = ''Error''"
proof -
  obtain l' w' where s: "stateOf (Errorf exampleLog exampleCaller ''boom'' exampleWorld) = (l', w')"
    by (cases "stateOf (Errorf exampleLog exampleCaller ''boom'' exampleWorld)")
  from Errorf_sets_level_Error [OF s] s
  have "LogLevel (fst (stateOf (Errorf exampleLog exampleCaller ''boom'' exampleWorld))) = Error
   \<and> GetLevelString (fst (stateOf (Errorf exampleLog exampleCaller ''boom'' exampleWorld))) = ''Error''"
    by simp
  moreover have "LogLevel exampleLog = Info \<and> Info \<noteq> Error"
    by (simp add: exampleLog_def Info_def Error_def)
  ultimately show ?thesis using Errorf_example by simp
qed

subsection \<open>The bounded queue\<close>

lemma InitLogger_logChannels:
  "logChannels (fst (InitLogger l w)) = Some \<lparr>buf = [], cap = 3000, closed = False\<rparr>"
  by (simp add: InitLogger_def)

lemma SetLogger_logChannels:
  "logChannels (fst (stateOf (SetLogger l Level path maxDay w)))
     = Some \<lparr>buf = [], cap = 3000, closed = False\<rparr>"
  by (simp add: SetLogger_def InitLogger_def switchLevel_def Let_def relativePathToAbsPath_def
      now_def OpenFile_def split: prod.splits option.splits sum.splits)

lemma syncWriteLog_chanSend:
  "syncWriteLog l caller formatted w
     = chanSend l (fst (logWithCallerInfo l caller formatted w)) (w\<lparr>tick := Suc (tick w)\<rparr>)"
  by (simp add: syncWriteLog_def logWithCallerInfo_def now_def Let_def)

lemma chanSend_room:
  "logChannels l = Some c \<Longrightarrow> \<not> closed c \<Longrightarrow> length (buf c) < cap c \<Longrightarrow>
     chanSend l m w = Return (l\<lparr>logChannels := Some (c\<lparr>buf := buf c @ [m]\<rparr>)\<rparr>, w)"
  by (simp add: chanSend_def)

lemma chanSend_full:
  "logChannels l = Some c \<Longrightarrow> \<not> closed c \<Longrightarrow> length (buf c) = cap c \<Longrightarrow>
     chanSend l m w = Sending m (l, w)"
  by (simp add: chanSend_def)

lemma turn_takes_oldest:
  assumes "logChannels l = Some c" and "length (buf c) = cap c" and "0 < cap c"
  shows "logWriteToFile_turn l w
     = logWriteToFile_body (l\<lparr>logChannels := Some (c\<lparr>buf := tl (buf c)\<rparr>)\<rparr>) (hd (buf c)) w"
proof -
  from assms obtain x xs where "buf c = x # xs" by (cases "buf c") auto
  with assms show ?thesis by (simp add: logWriteToFile_turn_def chanRecv_def)
qed

lemma turn_frees_slot:
  assumes "logChannels l = Some c" and "\<not> closed c" and "length (buf c) = cap c" and "0 < cap c"
    and "logWriteToFile_turn l w = Return (l2, w2)"
  shows "chanSend l2 m w2 = Return (l2\<lparr>logChannels := Some (c\<lparr>buf := tl (buf c) @ [m]\<rparr>)\<rparr>, w2)"
proof -
  from assms have
    "logWriteToFile_body (l\<lparr>logChannels := Some (c\<lparr>buf := tl (buf c)\<rparr>)\<rparr>) (hd (buf c)) w
       = Return (l2, w2)"
    by (simp add: turn_takes_oldest)
  from logWriteToFile_body_logChannels [OF this]
  have "logChannels l2 = Some (c\<lparr>buf := tl (buf c)\<rparr>)" by simp
  moreover from assms have "length (tl (buf c)) < cap c" by simp
  ultimately show ?thesis using assms(2) by (simp add: chanSend_def)
qed

text \<open>
  C7. The queue \<open>InitLogger\<close> makes (and \<open>SetLogger\<close> leaves in place) is empty with
  capacity 3000. On an open queue with room, \<open>Infof\<close> and \<open>Errorf\<close> return with their
  formatted line appended behind the lines already there. On a full open queue they
  are suspended in the send, holding that line, with the logger and the world as they
  were but for the clock reading (and the level \<open>Errorf\<close> sets): nothing is dropped, no
  error or panic is raised. Scheduled again while the queue is still full they stay
  suspended. A turn of the writer hands the oldest line to the loop body; once that
  turn has returned, the suspended call goes on and returns, and the queue is the
  other lines followed by the call's line.
\<close>

theorem queue_capacity_and_backpressure:
  assumes "logChannels l = Some c" and "\<not> closed c" and "0 < cap c"
    and "message = fst (logWithCallerInfo l caller formatted w)"
    and "messageE = fst (logWithCallerInfo (l\<lparr>LogLevel := Error\<rparr>) caller formatted w)"
    and "w1 = w\<lparr>tick := Suc (tick w)\<rparr>"
  shows "logChannels (fst (InitLogger l0 w0)) = Some \<lparr>buf = [], cap = 3000, closed = False\<rparr>
   \<and> logChannels (fst (stateOf (SetLogger l0 Level path maxDay w0)))
        = Some \<lparr>buf = [], cap = 3000, closed = False\<rparr>
   \<and> (length (buf c) < cap c \<longrightarrow>
         Infof l caller formatted w
           = Return (l\<lparr>logChannels := Some (c\<lparr>buf := buf c @ [message]\<rparr>)\<rparr>, w1)
         \<and> Errorf l caller formatted w
           = Return (l\<lparr>LogLevel := Error, logChannels := Some (c\<lparr>buf := buf c @ [messageE]\<rparr>)\<rparr>, w1))
   \<and> (length (buf c) = cap c \<longrightarrow>
         Infof l caller formatted w = Sending message (l, w1)
         \<and> resume (Infof l caller formatted w) (l, w1) = Sending message (l, w1)
         \<and> logWriteToFile_turn l w1
             = logWriteToFile_body (l\<lparr>logChannels := Some (c\<lparr>buf := tl (buf c)\<rparr>)\<rparr>) (hd (buf c)) w1
         \<and> (\<forall>l2 w2. logWriteToFile_turn l w1 = Return (l2, w2) \<longrightarrow>
               resume (Infof l caller formatted w) (l2, w2)
                 = Return (l2\<lparr>logChannels := Some (c\<lparr>buf := tl (buf c) @ [message]\<rparr>)\<rparr>, w2))
         \<and> Errorf l caller formatted w = Sending messageE (l\<lparr>LogLevel := Error\<rparr>, w1)
         \<and> resume (Errorf l caller formatted w) (l\<lparr>LogLevel := Error\<rparr>, w1)
             = Sending messageE (l\<lparr>LogLevel := Error\<rparr>, w1)
         \<and> (\<forall>l2 w2. logWriteToFile_turn (l\<lparr>LogLevel := Error\<rparr>) w1 = Return (l2, w2) \<longrightarrow>
               resume (Errorf l caller formatted w) (l2, w2)
                 = Return (l2\<lparr>logChannels := Some (c\<lparr>buf := tl (buf c) @ [messageE]\<rparr>)\<rparr>, w2)))"
proof -
  have i: "Infof l caller formatted w = chanSend l message w1"
    using assms(4,6) by (simp add: Infof_def syncWriteLog_chanSend)
  have e: "Errorf l caller formatted w = chanSend (l\<lparr>LogLevel := Error\<rparr>) messageE w1"
    using assms(5,6) by (simp add: Errorf_def syncWriteLog_chanSend)
  have cE: "logChannels (l\<lparr>LogLevel := Error\<rparr>) = Some c"
    using assms(1) by simp
  have room: "Infof l caller formatted w
           = Return (l\<lparr>logChannels := Some (c\<lparr>buf := buf c @ [message]\<rparr>)\<rparr>, w1)
         \<and> Errorf l caller formatted w
           = Return (l\<lparr>LogLevel := Error, logChannels := Some (c\<lparr>buf := buf c @ [messageE]\<rparr>)\<rparr>, w1)"
    if "length (buf c) < cap c"
    using that assms(1,2) by (simp add: i e chanSend_def)
  have full: "Infof l caller formatted w = Sending message (l, w1)
         \<and> resume (Infof l caller formatted w) (l, w1) = Sending message (l, w1)
         \<and> logWriteToFile_turn l w1
             = logWriteToFile_body (l\<lparr>logChannels := Some (c\<lparr>buf := tl (buf c)\<rparr>)\<rparr>) (hd (buf c)) w1
         \<and> (\<forall>l2 w2. logWriteToFile_turn l w1 = Return (l2, w2) \<longrightarrow>
               resume (Infof l caller formatted w) (l2, w2)
                 = Return (l2\<lparr>logChannels := Some (c\<lparr>buf := tl (buf c) @ [message]\<rparr>)\<rparr>, w2))
         \<and> Errorf l caller formatted w = Sending messageE (l\<lparr>LogLevel := Error\<rparr>, w1)
         \<and> resume (Errorf l caller formatted w) (l\<lparr>LogLevel := Error\<rparr>, w1)
             = Sending messageE (l\<lparr>LogLevel := Error\<rparr>, w1)
         \<and> (\<forall>l2 w2. logWriteToFile_turn (l\<lparr>LogLevel := Error\<rparr>) w1 = Return (l2, w2) \<longrightarrow>
               resume (Errorf l caller formatted w) (l2, w2)
                 = Return (l2\<lparr>logChannels := Some (c\<lparr>buf := tl (buf c) @ [messageE]\<rparr>)\<rparr>, w2))"
    if f: "length (buf c) = cap c"
  proof -
    have 1: "Infof l caller formatted w = Sending message (l, w1)"
      using assms(1,2) f by (simp add: i chanSend_full)
    have 2: "resume (Infof l caller formatted w) (l, w1) = Sending message (l, w1)"
      using assms(1,2) f by (simp add: 1 resume_def chanSend_full)
    have 3: "logWriteToFile_turn l w1
             = logWriteToFile_body (l\<lparr>logChannels := Some (c\<lparr>buf := tl (buf c)\<rparr>)\<rparr>) (hd (buf c)) w1"
      by (rule turn_takes_oldest [OF assms(1) f assms(3)])
    have 4: "resume (Infof l caller formatted w) (l2, w2)
                 = Return (l2\<lparr>logChannels := Some (c\<lparr>buf := tl (buf c) @ [message]\<rparr>)\<rparr>, w2)"
      if "logWriteToFile_turn l w1 = Return (l2, w2)" for l2 w2
      using turn_frees_slot [OF assms(1,2) f assms(3) that] by (simp add: 1 resume_def)
    have 5: "Errorf l caller formatted w = Sending messageE (l\<lparr>LogLevel := Error\<rparr>, w1)"
      using cE assms(2) f by (simp add: e chanSend_full)
    have 6: "resume (Errorf l caller formatted w) (l\<lparr>LogLevel := Error\<rparr>, w1)
             = Sending messageE (l\<lparr>LogLevel := Error\<rparr>, w1)"
      using cE assms(2) f by (simp add: 5 resume_def chanSend_full)
    have 7: "resume (Errorf l caller formatted w) (l2, w2)
                 = Return (l2\<lparr>logChannels := Some (c\<lparr>buf := tl (buf c) @ [messageE]\<rparr>)\<rparr>, w2)"
      if "logWriteToFile_turn (l\<lparr>LogLevel := Error\<rparr>) w1 = Return (l2, w2)" for l2 w2
      using turn_frees_slot [OF cE assms(2) f assms(3) that] by (simp add: 5 resume_def)
    from 1 2 3 4 5 6 7 show ?thesis by blast
  qed
  from InitLogger_logChannels SetLogger_logChannels room full show ?thesis by blast
qed

lemma replicate_3000: "replicate 3000 x = x # replicate 2999 x"
proof -
  have "(3000::nat) = Suc 2999" by simp
  then show ?thesis by (simp only: replicate_Suc)
qed

lemma exampleLine_nonempty: "exampleLine \<noteq> []"
  by (simp add: exampleLine_def)

lemma Format_date_exampleTime: "Format_2006_01_02 exampleTime = ''2024-03-05''"
  by (simp add: Format_date civil_exampleTime spec_date_exampleTime)

lemma turn_fullLog:
  "logWriteToFile_turn fullLog (openWorld\<lparr>tick := 1\<rparr>) =
     Return (fullLog\<lparr>logChannels := Some \<lparr>buf = replicate 2999 exampleLine, cap = 3000, closed = False\<rparr>\<rparr>,
       openWorld\<lparr>tick := 2, disk := [''/srv/logs/2024-03-05.log'' \<mapsto> exampleLine],
         goroutines := [ClearOldLogsTask]\<rparr>)"
  by (simp add: logWriteToFile_turn_def chanRecv_def fullLog_def replicate_3000
      logWriteToFile_body_def exampleLine_nonempty now_def openWorld_def exampleWorld_def
      Format_date_exampleTime WriteString_def exampleLog_def)

lemma message_fullLog:
  "fst (logWithCallerInfo fullLog exampleCaller ''late'' openWorld) = infoLine ''late''"
proof -
  have "LogLevel fullLog = Info" by (simp add: fullLog_def exampleLog_def)
  moreover have "clock openWorld (tick openWorld) = exampleTime"
    by (simp add: openWorld_def exampleWorld_def)
  ultimately show ?thesis by (simp add: logWithCallerInfo_infoLine)
qed

lemma message_configuredLog:
  "fst (logWithCallerInfo configuredLog exampleCaller ''first'' configuredWorld) = infoLine ''first''"
proof -
  have "LogLevel configuredLog = Info" by (simp add: configuredLog_def)
  moreover have "clock configuredWorld (tick configuredWorld) = exampleTime"
    by (simp add: configuredWorld_def exampleWorld_def)
  ultimately show ?thesis by (simp add: logWithCallerInfo_infoLine)
qed

theorem queue_capacity_and_backpressure_witness:
  "logChannels configuredLog = Some \<lparr>buf = [], cap = 3000, closed = False\<rparr>
   \<and> Infof configuredLog exampleCaller ''first'' configuredWorld
       = Return (configuredLog\<lparr>logChannels := Some \<lparr>buf = [infoLine ''first''], cap = 3000,
            closed = False\<rparr>\<rparr>, configuredWorld\<lparr>tick := 3\<rparr>)
   \<and> logChannels fullLog = Some \<lparr>buf = replicate 3000 exampleLine, cap = 3000, closed = False\<rparr>
   \<and> Infof fullLog exampleCaller ''late'' openWorld
       = Sending (infoLine ''late'') (fullLog, openWorld\<lparr>tick := 1\<rparr>)
   \<and> resume (Infof fullLog exampleCaller ''late'' openWorld) (fullLog, openWorld\<lparr>tick := 1\<rparr>)
       = Sending (infoLine ''late'') (fullLog, openWorld\<lparr>tick := 1\<rparr>)
   \<and> logWriteToFile_turn fullLog (openWorld\<lparr>tick := 1\<rparr>) =
       Return (fullLog\<lparr>logChannels := Some \<lparr>buf = replicate 2999 exampleLine, cap = 3000, closed = False\<rparr>\<rparr>,
         openWorld\<lparr>tick := 2, disk := [''/srv/logs/2024-03-05.log'' \<mapsto> exampleLine],
           goroutines := [ClearOldLogsTask]\<rparr>)
   \<and> resume (Infof fullLog exampleCaller ''late'' openWorld)
         (fullLog\<lparr>logChannels := Some \<lparr>buf = replicate 2999 exampleLine, cap = 3000, closed = False\<rparr>\<rparr>,
          openWorld\<lparr>tick := 2, disk := [''/srv/logs/2024-03-05.log'' \<mapsto> exampleLine],
            goroutines := [ClearOldLogsTask]\<rparr>)
       = Return (fullLog\<lparr>logChannels := Some \<lparr>buf = replicate 2999 exampleLine @ [infoLine ''late''],
             cap = 3000, closed = False\<rparr>\<rparr>,
           openWorld\<lparr>tick := 2, disk := [''/srv/logs/2024-03-05.log'' \<mapsto> exampleLine],
             goroutines := [ClearOldLogsTask]\<rparr>)"
proof -
  have c: "logChannels fullLog = Some \<lparr>buf = replicate 3000 exampleLine, cap = 3000, closed = False\<rparr>"
    by (simp add: fullLog_def)
  have o: "\<not> closed \<lparr>buf = replicate 3000 exampleLine, cap = 3000, closed = False\<rparr>"
    and p: "0 < cap \<lparr>buf = replicate 3000 exampleLine, cap = 3000, closed = False\<rparr>"
    by simp_all
  have f: "length (buf \<lparr>buf = replicate 3000 exampleLine, cap = 3000, closed = False\<rparr>)
      = cap \<lparr>buf = replicate 3000 exampleLine, cap = 3000, closed = False\<rparr>"
    by simp
  have t1: "openWorld\<lparr>tick := 1\<rparr> = openWorld\<lparr>tick := Suc (tick openWorld)\<rparr>"
    by (simp add: openWorld_def exampleWorld_def)
  note t = queue_capacity_and_backpressure [OF c o p message_fullLog [symmetric] refl t1,
      of NewLogger exampleWorld 0 "[]" 0]
  from t f have s: "Infof fullLog exampleCaller ''late'' openWorld
       = Sending (infoLine ''late'') (fullLog, openWorld\<lparr>tick := 1\<rparr>)"
    and r: "resume (Infof fullLog exampleCaller ''late'' openWorld) (fullLog, openWorld\<lparr>tick := 1\<rparr>)
       = Sending (infoLine ''late'') (fullLog, openWorld\<lparr>tick := 1\<rparr>)"
    by blast+
  from t f turn_fullLog
  have "resume (Infof fullLog exampleCaller ''late'' openWorld)
         (fullLog\<lparr>logChannels := Some \<lparr>buf = replicate 2999 exampleLine, cap = 3000, closed = False\<rparr>\<rparr>,
          openWorld\<lparr>tick := 2, disk := [''/srv/logs/2024-03-05.log'' \<mapsto> exampleLine],
            goroutines := [ClearOldLogsTask]\<rparr>)
       = Return (fullLog\<lparr>logChannels := Some \<lparr>buf = replicate 2999 exampleLine, cap = 3000, closed = False\<rparr>\<rparr>
            \<lparr>logChannels := Some (\<lparr>buf = replicate 3000 exampleLine, cap = 3000, closed = False\<rparr>
               \<lparr>buf := tl (buf \<lparr>buf = replicate 3000 exampleLine, cap = 3000, closed = False\<rparr>)
                  @ [infoLine ''late'']\<rparr>)\<rparr>,
           openWorld\<lparr>tick := 2, disk := [''/srv/logs/2024-03-05.log'' \<mapsto> exampleLine],
             goroutines := [ClearOldLogsTask]\<rparr>)"
    by blast
  then have a: "resume (Infof fullLog exampleCaller ''late'' openWorld)
         (fullLog\<lparr>logChannels := Some \<lparr>buf = replicate 2999 exampleLine, cap = 3000, closed = False\<rparr>\<rparr>,
          openWorld\<lparr>tick := 2, disk := [''/srv/logs/2024-03-05.log'' \<mapsto> exampleLine],
            goroutines := [ClearOldLogsTask]\<rparr>)
       = Return (fullLog\<lparr>logChannels := Some \<lparr>buf = replicate 2999 exampleLine @ [infoLine ''late''],
             cap = 3000, closed = False\<rparr>\<rparr>,
           openWorld\<lparr>tick := 2, disk := [''/srv/logs/2024-03-05.log'' \<mapsto> exampleLine],
             goroutines := [ClearOldLogsTask]\<rparr>)"
    by (simp add: replicate_3000)
  have c2: "logChannels configuredLog = Some \<lparr>buf = [], cap = 3000, closed = False\<rparr>"
    by (simp add: configuredLog_def)
  have o2: "\<not> closed \<lparr>buf = [], cap = 3000, closed = False\<rparr>"
    and p2: "0 < cap \<lparr>buf = [], cap = 3000, closed = False\<rparr>"
    and f2: "length (buf \<lparr>buf = [], cap = 3000, closed = False\<rparr>)
      < cap \<lparr>buf = [], cap = 3000, closed = False\<rparr>"
    by simp_all
  have t3: "configuredWorld\<lparr>tick := 3\<rparr> = configuredWorld\<lparr>tick := Suc (tick configuredWorld)\<rparr>"
    by (simp add: configuredWorld_def exampleWorld_def)
  note t2 = queue_capacity_and_backpressure [OF c2 o2 p2 message_configuredLog [symmetric] refl t3,
      of NewLogger exampleWorld 0 "[]" 0]
  from t2 f2 have "Infof configuredLog exampleCaller ''first'' configuredWorld
       = Return (configuredLog\<lparr>logChannels := Some (\<lparr>buf = [], cap = 3000, closed = False\<rparr>
            \<lparr>buf := buf \<lparr>buf = [], cap = 3000, closed = False\<rparr> @ [infoLine ''first'']\<rparr>)\<rparr>,
           configuredWorld\<lparr>tick := 3\<rparr>)"
    by blast
  then have g: "Infof configuredLog exampleCaller ''first'' configuredWorld
       = Return (configuredLog\<lparr>logChannels := Some \<lparr>buf = [infoLine ''first''], cap = 3000,
            closed = False\<rparr>\<rparr>, configuredWorld\<lparr>tick := 3\<rparr>)"
    by simp
  from c2 g c s r turn_fullLog a show ?thesis by simp
qed

subsection \<open>Configuration with an invalid level\<close>

lemma switchLevel_invalid:
  "Level \<noteq> Debug \<Longrightarrow> Level \<noteq> Info \<Longrightarrow> Level \<noteq> Error \<Longrightarrow> switchLevel Level l = l"
  by (simp add: switchLevel_def)

lemma SetLogger_unset_level:
  "LogLevel (fst (stateOf (SetLogger l 0 path maxDay w))) = Info"
  by (simp add: SetLogger_def InitLogger_def Let_def relativePathToAbsPath_def now_def OpenFile_def
     split: prod.splits option.splits sum.splits)

text \<open>
  C6, as the code has it. A level that is neither 0 nor one of \<open>Debug\<close>, \<open>Info\<close>,
  \<open>Error\<close> is ignored without any validation error: the call behaves exactly as the
  call with level 0. The level stored is \<open>Info\<close>, the default \<open>InitLogger\<close> sets at the
  start of every \<open>SetLogger\<close>; it is not the level the logger had before the call.
\<close>

theorem SetLogger_invalid_level_ignored:
  assumes "Level \<noteq> 0" and "Level \<noteq> Debug" and "Level \<noteq> Info" and "Level \<noteq> Error"
  shows "SetLogger l Level path maxDay w = SetLogger l 0 path maxDay w
       \<and> LogLevel (fst (stateOf (SetLogger l Level path maxDay w))) = Info
       \<and> LogLevel (fst (InitLogger l w)) = Info"
proof -
  have "SetLogger l Level path maxDay w = SetLogger l 0 path maxDay w"
    using assms by (simp add: SetLogger_def switchLevel_invalid split: prod.splits)
  then show ?thesis
    by (simp add: SetLogger_unset_level) (simp add: InitLogger_def)
qed

lemma formatLogFileName_exampleTime: "formatLogFileName exampleTime = ''2024-03-05.log''"
  by (simp add: formatLogFileName_def Format_date_exampleTime)

lemma SetLogger_example:
  "Level = 0 \<or> (Level \<noteq> Debug \<and> Level \<noteq> Error) \<Longrightarrow>
   SetLogger l Level ''logs'' 7 exampleWorld =
     Return (l\<lparr>LogLevel := Info, FilePath := ''/srv/logs'', MaxDay := 7, currentFile := Some 0,
         currentDate := ''2024-03-05.log'',
         logChannels := Some \<lparr>buf = [], cap = 3000, closed = False\<rparr>\<rparr>,
       exampleWorld\<lparr>tick := 2, disk := [''/srv/logs/2024-03-05.log'' \<mapsto> []],
         files := [(''/srv/logs/2024-03-05.log'', True)],
         stdout := ''/srv/logs'' @ newline,
         goroutines := [ClearOldLogsTask, LogWriteToFileTask]\<rparr>)"
  by (auto simp add: SetLogger_def InitLogger_def switchLevel_def Let_def relativePathToAbsPath_def
      now_def OpenFile_def exampleWorld_def formatLogFileName_exampleTime)

theorem SetLogger_invalid_level_ignored_witness:
  "(7::int) \<noteq> 0 \<and> 7 \<noteq> Debug \<and> 7 \<noteq> Info \<and> 7 \<noteq> Error
   \<and> SetLogger (exampleLog\<lparr>LogLevel := Error\<rparr>) 7 ''logs'' 7 exampleWorld
       = SetLogger (exampleLog\<lparr>LogLevel := Error\<rparr>) 0 ''logs'' 7 exampleWorld
   \<and> LogLevel (fst (stateOf (SetLogger (exampleLog\<lparr>LogLevel := Error\<rparr>) 7 ''logs'' 7 exampleWorld)))
       = Info"
proof -
  have h: "(7::int) \<noteq> 0" "7 \<noteq> Debug" "7 \<noteq> Info" "7 \<noteq> Error"
    by (simp_all add: Debug_def Info_def Error_def)
  from SetLogger_invalid_level_ignored [OF h, of "exampleLog\<lparr>LogLevel := Error\<rparr>" "''logs''" 7 exampleWorld] h
  show ?thesis by blast
qed

text \<open>
  C6 as stated fails when the level held before the call is not \<open>Info\<close>: a logger at
  level \<open>Error\<close> configured with the invalid level 7 does not stay at \<open>Error\<close>.
\<close>

theorem SetLogger_invalid_level_counterexample:
  "LogLevel (exampleLog\<lparr>LogLevel := Error\<rparr>) = Error
   \<and> (7::int) \<noteq> 0 \<and> 7 \<noteq> Debug \<and> 7 \<noteq> Info \<and> 7 \<noteq> Error
   \<and> LogLevel (fst (stateOf (SetLogger (exampleLog\<lparr>LogLevel := Error\<rparr>) 7 ''logs'' 7 exampleWorld)))
       \<noteq> Error"
proof -
  have "(7::int) \<noteq> Debug \<and> (7::int) \<noteq> Error" by (simp add: Debug_def Error_def)
  then have "LogLevel (fst (stateOf (SetLogger (exampleLog\<lparr>LogLevel := Error\<rparr>) 7 ''logs'' 7 exampleWorld))) = Info"
    by (simp add: SetLogger_example)
  then show ?thesis by (simp add: Debug_def Info_def Error_def)
qed

subsection \<open>Failure to resolve the directory\<close>

lemma switchLevel_fields:
  "FilePath (switchLevel Level l) = FilePath l"
  "switchLevel Level l\<lparr>FilePath := p\<rparr> = switchLevel Level (l\<lparr>FilePath := p\<rparr>)"
  by (simp_all add: switchLevel_def)

text \<open>
  C9. When \<^verbatim>\<open>filepath.Abs\<close> fails on the directory being resolved (the configured one,
  or \<^verbatim>\<open>.\<close> when none is given), \<open>relativePathToAbsPath\<close> prints the failure on standard
  output and returns the empty string. \<open>SetLogger\<close> stores that empty path and goes on:
  it opens today's file under the empty path, and it returns unless that open fails;
  the resolution failure itself is never an error of the call.
\<close>

theorem abs_failure_degrades_to_empty_path:
  assumes mk: "(if dir = [] then None else mkdirAllErr w dir) = None"
    and ab: "absPath w (if dir = [] then ''.'' else dir) = Inl err"
  shows "relativePathToAbsPath (if dir = [] then ''.'' else dir) w
           = ([], w\<lparr>stdout := stdout w @ ''Failed to get absolute path: '' @ err @ newline\<rparr>)
       \<and> FilePath (fst (stateOf (SetLogger l Level dir maxDay w))) = []
       \<and> stdout (snd (stateOf (SetLogger l Level dir maxDay w)))
           = stdout w @ ''Failed to get absolute path: '' @ err @ newline
       \<and> (case openFileErr w (''/'' @ formatLogFileName (clock w (tick w))) of
             None \<Rightarrow> \<exists>l' w'. SetLogger l Level dir maxDay w = Return (l', w')
                      \<and> currentFile l' = Some (length (files w))
                      \<and> files w' = files w @ [(''/'' @ formatLogFileName (clock w (tick w)), True)]
           | Some e \<Rightarrow> \<exists>s. SetLogger l Level dir maxDay w = Fatal e s)"
proof -
  have 1: "relativePathToAbsPath (if dir = [] then ''.'' else dir) w
           = ([], w\<lparr>stdout := stdout w @ ''Failed to get absolute path: '' @ err @ newline\<rparr>)"
    using ab by (simp add: relativePathToAbsPath_def)
  have 2: "FilePath (fst (stateOf (SetLogger l Level dir maxDay w))) = []"
    using mk ab
    by (cases "dir = []")
      (simp_all add: SetLogger_def InitLogger_def Let_def relativePathToAbsPath_def now_def
        OpenFile_def switchLevel_fields split: prod.splits option.splits sum.splits)
  have 3: "stdout (snd (stateOf (SetLogger l Level dir maxDay w)))
           = stdout w @ ''Failed to get absolute path: '' @ err @ newline"
    using mk ab
    by (cases "dir = []")
      (simp_all add: SetLogger_def InitLogger_def Let_def relativePathToAbsPath_def now_def
        OpenFile_def switchLevel_fields split: prod.splits option.splits sum.splits)
  have 4: "(case openFileErr w (''/'' @ formatLogFileName (clock w (tick w))) of
             None \<Rightarrow> \<exists>l' w'. SetLogger l Level dir maxDay w = Return (l', w')
                      \<and> currentFile l' = Some (length (files w))
                      \<and> files w' = files w @ [(''/'' @ formatLogFileName (clock w (tick w)), True)]
           | Some e \<Rightarrow> \<exists>s. SetLogger l Level dir maxDay w = Fatal e s)"
    using mk ab
    by (cases "dir = []")
      (simp_all add: SetLogger_def InitLogger_def Let_def relativePathToAbsPath_def now_def
        OpenFile_def switchLevel_fields split: prod.splits option.splits sum.splits)
  from 1 2 3 4 show ?thesis by simp
qed

theorem abs_failure_degrades_to_empty_path_witness:
  "(if ''logs'' = [] then None else mkdirAllErr noAbsWorld ''logs'') = None
   \<and> absPath noAbsWorld (if ''logs'' = [] then ''.'' else ''logs'')
       = Inl ''getwd: no such file or directory''
   \<and> SetLogger NewLogger 2 ''logs'' 7 noAbsWorld =
       Return (NewLogger\<lparr>LogLevel := Info, FilePath := [], MaxDay := 7, currentFile := Some 0,
           currentDate := ''2024-03-05.log'',
           logChannels := Some \<lparr>buf = [], cap = 3000, closed = False\<rparr>\<rparr>,
         noAbsWorld\<lparr>tick := 2, disk := [''/2024-03-05.log'' \<mapsto> []],
           files := [(''/2024-03-05.log'', True)],
           stdout := ''Failed to get absolute path: getwd: no such file or directory'' @ newline,
           goroutines := [ClearOldLogsTask, LogWriteToFileTask]\<rparr>)
   \<and> FilePath (fst (stateOf (SetLogger NewLogger 2 ''logs'' 7 noAbsWorld))) = []
   \<and> stdout (snd (stateOf (SetLogger NewLogger 2 ''logs'' 7 noAbsWorld)))
       = ''Failed to get absolute path: getwd: no such file or directory'' @ newline"
proof -
  have mk: "(if ''logs'' = [] then None else mkdirAllErr noAbsWorld ''logs'') = None"
    by (simp add: noAbsWorld_def exampleWorld_def)
  have ab: "absPath noAbsWorld (if ''logs'' = [] then ''.'' else ''logs'')
       = Inl ''getwd: no such file or directory''"
    by (simp add: noAbsWorld_def)
  have s: "stdout noAbsWorld = []"
    by (simp add: noAbsWorld_def exampleWorld_def)
  have v: "SetLogger NewLogger 2 ''logs'' 7 noAbsWorld =
       Return (NewLogger\<lparr>LogLevel := Info, FilePath := [], MaxDay := 7, currentFile := Some 0,
           currentDate := ''2024-03-05.log'',
           logChannels := Some \<lparr>buf = [], cap = 3000, closed = False\<rparr>\<rparr>,
         noAbsWorld\<lparr>tick := 2, disk := [''/2024-03-05.log'' \<mapsto> []],
           files := [(''/2024-03-05.log'', True)],
           stdout := ''Failed to get absolute path: getwd: no such file or directory'' @ newline,
           goroutines := [ClearOldLogsTask, LogWriteToFileTask]\<rparr>)"
    by (simp add: SetLogger_def InitLogger_def switchLevel_def Let_def relativePathToAbsPath_def
        now_def OpenFile_def noAbsWorld_def exampleWorld_def formatLogFileName_exampleTime
        NewLogger_def Info_def Debug_def)
  from abs_failure_degrades_to_empty_path [OF mk ab, of NewLogger 2 7] mk ab s v
  show ?thesis by simp
qed

subsection \<open>The recorded date and rotation\<close>

lemma itoaNat_last: "itoaNat n \<noteq> [] \<and> last (itoaNat n) = digitChar (n mod 10)"
  by (subst (1 2) itoaNat.simps) simp

lemma digitChar_not_g: "digitChar (n mod 10) \<noteq> CHR ''g''"
proof -
  have "n mod 10 < length ''0123456789''" by simp
  then have "''0123456789'' ! (n mod 10) \<in> set ''0123456789''" by (rule nth_mem)
  then show ?thesis by (auto simp: digitChar_def)
qed

lemma Format_2006_01_02_last: "last (Format_2006_01_02 t) \<noteq> CHR ''g''"
  using itoaNat_last [of "Day t"] digitChar_not_g [of "Day t"]
  by (simp add: Format_2006_01_02_def appendInt_def Let_def)

lemma file_name_is_no_date: "formatLogFileName t \<noteq> Format_2006_01_02 u"
proof
  assume "formatLogFileName t = Format_2006_01_02 u"
  then have "last (formatLogFileName t) = last (Format_2006_01_02 u)" by simp
  then show False using Format_2006_01_02_last [of u] by (simp add: formatLogFileName_def)
qed

lemma SetLogger_Return:
  assumes "SetLogger l0 Level dir maxDay w0 = Return (l, w)"
  shows "\<exists>t p. currentDate l = formatLogFileName t \<and> currentFile l = Some (length (files w0))
           \<and> files w = files w0 @ [(p, True)]"
  using assms
  by (auto simp: SetLogger_def InitLogger_def Let_def relativePathToAbsPath_def now_def OpenFile_def
      split: prod.splits option.splits sum.splits if_splits)

lemma createLogFile_Return:
  assumes "createLogFile l date w = Return (l', w')"
  shows "currentDate l' = Format_2006_01_02 date \<and> currentFile l' = Some (length (files w))
       \<and> length (files w') = Suc (length (files w))
       \<and> (\<forall>h. currentFile l = Some h \<and> h < length (files w) \<longrightarrow> \<not> snd (files w' ! h))"
  using assms
  by (auto simp: createLogFile_def Let_def now_def OpenFile_def fileClose_def nth_append
      split: prod.splits option.splits sum.splits if_splits)

lemma WriteString_files: "files (snd (WriteString f s w)) = files w"
  by (simp add: WriteString_def split: option.splits)

lemma body_rotates:
  assumes "logline \<noteq> []" and "Format_2006_01_02 (clock w (tick w)) \<noteq> currentDate l"
    and "logWriteToFile_body l logline w = Return (l', w')"
  shows "\<exists>w2. createLogFile l (clock w (Suc (tick w))) (w\<lparr>tick := Suc (Suc (tick w))\<rparr>)
            = Return (l', w2) \<and> files w' = files w2"
proof (cases "createLogFile l (clock w (Suc (tick w))) (w\<lparr>tick := Suc (Suc (tick w))\<rparr>)")
  case (Return s)
  obtain l2 w2 where s: "s = (l2, w2)" by (cases s)
  with Return assms have "l' = l2" and "w' = (snd (WriteString (currentFile l2) logline w2))
      \<lparr>goroutines := goroutines (snd (WriteString (currentFile l2) logline w2)) @ [ClearOldLogsTask]\<rparr>"
    by (auto simp: logWriteToFile_body_def Let_def now_def split: prod.splits)
  with Return s show ?thesis by (simp add: WriteString_files)
next
  case (Sending m s)
  with assms show ?thesis by (simp add: logWriteToFile_body_def Let_def now_def)
next
  case (Blocked s)
  with assms show ?thesis by (simp add: logWriteToFile_body_def Let_def now_def)
next
  case (Panic m s)
  with assms show ?thesis by (simp add: logWriteToFile_body_def Let_def now_def)
next
  case (Fatal m s)
  with assms show ?thesis by (simp add: logWriteToFile_body_def Let_def now_def)
qed

lemma body_keeps_file:
  assumes "Format_2006_01_02 (clock w (tick w)) = currentDate l"
    and "logWriteToFile_body l logline w = Return (l', w')"
  shows "files w' = files w \<and> currentFile l' = currentFile l \<and> currentDate l' = currentDate l"
  using assms
  by (auto simp: logWriteToFile_body_def Let_def now_def WriteString_def
      split: prod.splits option.splits outcome.splits if_splits)

text \<open>
  C1, on the code. \<open>SetLogger\<close> records \<open>formatLogFileName\<close> of the time, the file's
  \<^emph>\<open>name\<close> with its suffix, where the writer compares with the date alone (and where
  \<open>createLogFile\<close> records the date alone). So the recorded value equals no date at
  all, and the first line the writer processes after \<open>SetLogger\<close> always rotates,
  whatever the day: the file \<open>SetLogger\<close> opened is closed and a new file value is
  opened.
\<close>

theorem first_write_after_SetLogger_rotates:
  assumes "SetLogger l0 Level dir maxDay w0 = Return (l, w)" and "logline \<noteq> []"
  shows "(\<forall>t. currentDate l \<noteq> Format_2006_01_02 t)
       \<and> (\<forall>l' w'. logWriteToFile_body l logline w = Return (l', w') \<longrightarrow>
             length (files w') = Suc (length (files w))
             \<and> currentFile l' = Some (length (files w))
             \<and> (\<exists>h. currentFile l = Some h \<and> h < length (files w) \<and> snd (files w ! h)
                    \<and> \<not> snd (files w' ! h)))"
proof -
  from SetLogger_Return [OF assms(1)] obtain t p where
    d: "currentDate l = formatLogFileName t" and f: "currentFile l = Some (length (files w0))"
    and fs: "files w = files w0 @ [(p, True)]"
    by blast
  have never: "currentDate l \<noteq> Format_2006_01_02 u" for u
    using d file_name_is_no_date by simp
  have rot: "length (files w') = Suc (length (files w))
             \<and> currentFile l' = Some (length (files w))
             \<and> (\<exists>h. currentFile l = Some h \<and> h < length (files w) \<and> snd (files w ! h)
                    \<and> \<not> snd (files w' ! h))"
    if b: "logWriteToFile_body l logline w = Return (l', w')" for l' w'
  proof -
    have "Format_2006_01_02 (clock w (tick w)) \<noteq> currentDate l"
      using never [of "clock w (tick w)"] by simp
    from body_rotates [OF assms(2) this b] obtain w2 where
      c: "createLogFile l (clock w (Suc (tick w))) (w\<lparr>tick := Suc (Suc (tick w))\<rparr>)
            = Return (l', w2)"
      and e: "files w' = files w2"
      by blast
    from createLogFile_Return [OF c] e f fs show ?thesis
      by (auto simp: nth_append)
  qed
  from never rot show ?thesis by blast
qed


lemma SetLogger_configured:
  "SetLogger NewLogger 2 ''logs'' 7 exampleWorld = Return (configuredLog, configuredWorld)"
proof -
  have "(2::int) = 0 \<or> (2 \<noteq> Debug \<and> 2 \<noteq> Error)" by (simp add: Debug_def Error_def)
  from SetLogger_example [OF this] show ?thesis
    by (simp add: configuredLog_def configuredWorld_def)
qed

lemma body_configured:
  "logWriteToFile_body configuredLog exampleLine configuredWorld =
     Return (configuredLog\<lparr>currentFile := Some 1, currentDate := ''2024-03-05''\<rparr>,
       configuredWorld\<lparr>tick := 5, disk := [''/srv/logs/2024-03-05.log'' \<mapsto> exampleLine],
         files := [(''/srv/logs/2024-03-05.log'', False), (''/srv/logs/2024-03-05.log'', True)],
         goroutines := [ClearOldLogsTask, LogWriteToFileTask, ClearOldLogsTask]\<rparr>)"
  by (simp add: logWriteToFile_body_def exampleLine_nonempty now_def configuredWorld_def
      configuredLog_def exampleWorld_def Format_date_exampleTime createLogFile_def Let_def
      fileClose_def OpenFile_def formatLogFileName_exampleTime WriteString_def NewLogger_def)

theorem first_write_after_SetLogger_rotates_witness:
  "SetLogger NewLogger 2 ''logs'' 7 exampleWorld = Return (configuredLog, configuredWorld)
   \<and> exampleLine \<noteq> []
   \<and> clock configuredWorld (tick configuredWorld) = exampleTime
   \<and> currentDate configuredLog = ''2024-03-05.log''
   \<and> Format_2006_01_02 exampleTime = ''2024-03-05''
   \<and> currentDate configuredLog \<noteq> Format_2006_01_02 exampleTime
   \<and> logWriteToFile_body configuredLog exampleLine configuredWorld =
       Return (configuredLog\<lparr>currentFile := Some 1, currentDate := ''2024-03-05''\<rparr>,
         configuredWorld\<lparr>tick := 5, disk := [''/srv/logs/2024-03-05.log'' \<mapsto> exampleLine],
           files := [(''/srv/logs/2024-03-05.log'', False), (''/srv/logs/2024-03-05.log'', True)],
           goroutines := [ClearOldLogsTask, LogWriteToFileTask, ClearOldLogsTask]\<rparr>)"
proof -
  note t = first_write_after_SetLogger_rotates [OF SetLogger_configured exampleLine_nonempty]
  from t have "currentDate configuredLog \<noteq> Format_2006_01_02 exampleTime" by blast
  moreover have "clock configuredWorld (tick configuredWorld) = exampleTime"
    by (simp add: configuredWorld_def exampleWorld_def)
  moreover have "currentDate configuredLog = ''2024-03-05.log''"
    by (simp add: configuredLog_def)
  ultimately show ?thesis
    using SetLogger_configured exampleLine_nonempty Format_date_exampleTime body_configured
    by simp
qed

subsection \<open>Shutdown\<close>








lemma scenario_Infof_first:
  "Infof configuredLog exampleCaller ''first'' configuredWorld =
     Return (configuredLog\<lparr>logChannels := Some \<lparr>buf = [infoLine ''first''], cap = 3000, closed = False\<rparr>\<rparr>,
       configuredWorld\<lparr>tick := 3\<rparr>)"
proof -
  have "LogLevel configuredLog = Info" by (simp add: configuredLog_def)
  moreover have "clock configuredWorld (tick configuredWorld) = exampleTime"
    by (simp add: configuredWorld_def exampleWorld_def)
  ultimately have "logWithCallerInfo configuredLog exampleCaller ''first'' configuredWorld
      = (infoLine ''first'', configuredWorld\<lparr>tick := Suc (tick configuredWorld)\<rparr>)"
    by (rule logWithCallerInfo_infoLine)
  then show ?thesis
    by (simp add: Infof_def syncWriteLog_def chanSend_def configuredLog_def configuredWorld_def)
qed







text \<open>
  When \<open>Close\<close> comes before the writer's first turn, the first line rotates (see C1):
  the writer opens a file again after \<open>Close\<close>, both lines are written, and that file
  stays open.
\<close>

lemma earlyCloseScenario_value:
  "earlyCloseScenario =
     Return (pendingLog\<lparr>logChannels := Some \<lparr>buf = [], cap = 3000, closed = True\<rparr>\<rparr>,
       pendingWorld\<lparr>tick := 8,
         disk := [''/srv/logs/2024-03-05.log'' \<mapsto> infoLine ''first'' @ infoLine ''second''],
         goroutines := [ClearOldLogsTask, LogWriteToFileTask, ClearOldLogsTask, ClearOldLogsTask]\<rparr>)"
proof -
  have 2: "Infof (configuredLog\<lparr>logChannels := Some \<lparr>buf = [infoLine ''first''], cap = 3000, closed = False\<rparr>\<rparr>)
      exampleCaller ''second'' (configuredWorld\<lparr>tick := 3\<rparr>)
    = Return (configuredLog\<lparr>logChannels := Some \<lparr>buf = [infoLine ''first'', infoLine ''second''],
          cap = 3000, closed = False\<rparr>\<rparr>, configuredWorld\<lparr>tick := 4\<rparr>)"
  proof -
    have "LogLevel (configuredLog\<lparr>logChannels := Some \<lparr>buf = [infoLine ''first''], cap = 3000, closed = False\<rparr>\<rparr>) = Info"
      by (simp add: configuredLog_def)
    moreover have "clock (configuredWorld\<lparr>tick := 3\<rparr>) (tick (configuredWorld\<lparr>tick := 3\<rparr>)) = exampleTime"
      by (simp add: configuredWorld_def exampleWorld_def)
    ultimately have "logWithCallerInfo (configuredLog\<lparr>logChannels := Some \<lparr>buf = [infoLine ''first''], cap = 3000, closed = False\<rparr>\<rparr>)
        exampleCaller ''second'' (configuredWorld\<lparr>tick := 3\<rparr>)
      = (infoLine ''second'', configuredWorld\<lparr>tick := 3\<rparr>\<lparr>tick := Suc (tick (configuredWorld\<lparr>tick := 3\<rparr>))\<rparr>)"
      by (rule logWithCallerInfo_infoLine)
    then show ?thesis
      by (simp add: Infof_def syncWriteLog_def chanSend_def configuredLog_def configuredWorld_def)
  qed
  have 3: "Close (configuredLog\<lparr>logChannels := Some \<lparr>buf = [infoLine ''first'', infoLine ''second''],
          cap = 3000, closed = False\<rparr>\<rparr>) (configuredWorld\<lparr>tick := 4\<rparr>)
    = Return (configuredLog\<lparr>logChannels := Some \<lparr>buf = [infoLine ''first'', infoLine ''second''],
          cap = 3000, closed = True\<rparr>\<rparr>,
        configuredWorld\<lparr>tick := 4, files := [(''/srv/logs/2024-03-05.log'', False)]\<rparr>)"
    by (simp add: Close_def configuredLog_def configuredWorld_def fileClose_def Let_def)
  have 4: "logWriteToFile (configuredLog\<lparr>logChannels := Some \<lparr>buf = [infoLine ''first'', infoLine ''second''],
          cap = 3000, closed = True\<rparr>\<rparr>)
        (configuredWorld\<lparr>tick := 4, files := [(''/srv/logs/2024-03-05.log'', False)]\<rparr>)
    = Return (pendingLog\<lparr>logChannels := Some \<lparr>buf = [], cap = 3000, closed = True\<rparr>\<rparr>,
       pendingWorld\<lparr>tick := 8,
         disk := [''/srv/logs/2024-03-05.log'' \<mapsto> infoLine ''first'' @ infoLine ''second''],
         goroutines := [ClearOldLogsTask, LogWriteToFileTask, ClearOldLogsTask, ClearOldLogsTask]\<rparr>)"
    apply (subst logWriteToFile.simps)
    apply (simp add: chanRecv_def logWriteToFile_body_def infoLine_nonempty now_def
        configuredWorld_def configuredLog_def exampleWorld_def Format_date_exampleTime
        createLogFile_def Let_def fileClose_def OpenFile_def formatLogFileName_exampleTime
        WriteString_def NewLogger_def)
    apply (subst logWriteToFile.simps)
    apply (simp add: chanRecv_def logWriteToFile_body_def infoLine_nonempty now_def
        Format_date_exampleTime WriteString_def)
    apply (subst logWriteToFile.simps)
    apply (simp add: chanRecv_def pendingLog_def pendingWorld_def configuredLog_def
        configuredWorld_def exampleWorld_def NewLogger_def)
    done
  show ?thesis
    by (simp add: earlyCloseScenario_def andThen_def SetLogger_configured scenario_Infof_first
        2 3 4)
qed



subsection \<open>The retention sweep\<close>

lemma expiredLogs_append: "expiredLogs c (xs @ ys) = expiredLogs c xs @ expiredLogs c ys"
  by (simp add: expiredLogs_def)

lemma sweepResult_nothing: "sweepResult ts w err w" if "err = None \<longrightarrow> ts = []"
  using that by (auto simp: sweepResult_def)

lemma sweepResult_then:
  assumes "sweepResult ts1 w None w1" and "sweepResult ts2 w1 err w2"
  shows "sweepResult (ts1 @ ts2) w err w2"
proof -
  from assms(1) have 1: "removed w1 = removed w @ ts1"
    "disk w1 = (\<lambda>p. if p \<in> set ts1 then None else disk w p)"
    by (auto simp: sweepResult_def)
  from assms(2) obtain gone where 2: "prefix gone ts2" "err = None \<longrightarrow> gone = ts2"
    "removed w2 = removed w1 @ gone" "disk w2 = (\<lambda>p. if p \<in> set gone then None else disk w1 p)"
    by (auto simp: sweepResult_def)
  have "prefix (ts1 @ gone) (ts1 @ ts2)" using 2(1) by simp
  moreover have "err = None \<longrightarrow> ts1 @ gone = ts1 @ ts2" using 2(2) by simp
  moreover have "removed w2 = removed w @ (ts1 @ gone)" using 1(1) 2(3) by simp
  moreover have "disk w2 = (\<lambda>p. if p \<in> set (ts1 @ gone) then None else disk w p)"
    using 1(2) 2(4) by auto
  ultimately show ?thesis unfolding sweepResult_def by blast
qed

lemma sweepResult_stop:
  assumes "sweepResult ts1 w (Some e) w1"
  shows "sweepResult (ts1 @ ts2) w (Some e) w1"
  using assms by (auto simp: sweepResult_def)

lemma fn_File:
  assumes "clearOldLogs_fn c path (Some \<lparr>IsDir = False, ModTime = mt\<rparr>) None w = (err, w')"
  shows "sweepResult (expiredLogs c [(path, mt)]) w err w'"
proof (cases "Before mt c \<and> suffix ''.log'' path")
  case True
  show ?thesis
  proof (cases "removeErr w path")
    case None
    with True assms have "err = None" "removed w' = removed w @ [path]"
      "disk w' = (disk w)(path := None)"
      by (auto simp: clearOldLogs_fn_def Remove_def)
    then have "prefix [path] [path] \<and> (err = None \<longrightarrow> [path] = [path])
        \<and> removed w' = removed w @ [path]
        \<and> disk w' = (\<lambda>p. if p \<in> set [path] then None else disk w p)"
      by auto
    then show ?thesis using True unfolding sweepResult_def expiredLogs_def 
      by (intro exI [of _ "[path]"]) simp
  next
    case (Some e)
    with True assms have "err = Some e" "w' = w"
      by (auto simp: clearOldLogs_fn_def Remove_def)
    then show ?thesis by (simp add: sweepResult_nothing)
  qed
next
  case False
  with assms have "removed w' = removed w" "disk w' = disk w"
    by (auto simp: clearOldLogs_fn_def split: if_splits)
  with False show ?thesis by (auto simp: sweepResult_def expiredLogs_def)
qed

lemma fn_Dir: "clearOldLogs_fn c path (Some \<lparr>IsDir = True, ModTime = mt\<rparr>) rderr w = (rderr, w)"
  by (simp add: clearOldLogs_fn_def split: option.splits)

lemma fn_NoInfo: "clearOldLogs_fn c path None (Some e) w = (Some e, w)"
  by (simp add: clearOldLogs_fn_def)

lemma walkNames_sweep:
  assumes "\<And>entry path w err w'. entry \<in> set entries \<Longrightarrow>
      walk j (clearOldLogs_fn c) path entry w = (err, w') \<Longrightarrow>
      sweepResult (expiredLogs c (nonDirs j path entry)) w err w'"
    and "walkNames j (clearOldLogs_fn c) path entries w = (err, w')"
  shows "sweepResult (expiredLogs c (nonDirsIn j path entries)) w err w'"
  using assms
proof (induction entries arbitrary: w)
  case Nil
  then show ?case by (simp add: sweepResult_nothing expiredLogs_def)
next
  case (Cons entry rest)
  obtain e1 w1 where h: "walk j (clearOldLogs_fn c) (j path (nodeName entry)) entry w = (e1, w1)"
    by (cases "walk j (clearOldLogs_fn c) (j path (nodeName entry)) entry w")
  have s1: "sweepResult (expiredLogs c (nonDirs j (j path (nodeName entry)) entry)) w e1 w1"
    using Cons.prems(1) [OF _ h] by simp
  show ?case
  proof (cases e1)
    case None
    with h Cons.prems(2) have "walkNames j (clearOldLogs_fn c) path rest w1 = (err, w')" by simp
    with Cons.IH [of w1] Cons.prems(1)
    have "sweepResult (expiredLogs c (nonDirsIn j path rest)) w1 err w'" by simp
    with s1 None show ?thesis
      by (simp add: expiredLogs_append sweepResult_then)
  next
    case (Some e)
    with h Cons.prems(2) have "err = Some e" "w' = w1" by simp_all
    with s1 Some show ?thesis
      by (simp add: expiredLogs_append sweepResult_stop)
  qed
qed

lemma walk_sweep:
  "walk j (clearOldLogs_fn c) path node w = (err, w') \<Longrightarrow>
     sweepResult (expiredLogs c (nonDirs j path node)) w err w'"
proof (induction node arbitrary: path w err w')
  case (NoInfo name e)
  then show ?case by (auto simp: fn_NoInfo sweepResult_nothing)
next
  case (File name mt)
  then show ?case using fn_File by simp
next
  case (Dir name mt rderr entries)
  show ?case
  proof (cases rderr)
    case None
    with Dir.prems have "walkNames j (clearOldLogs_fn c) path entries w = (err, w')"
      by (simp add: fn_Dir)
    with Dir.IH show ?thesis
      by (simp add: walkNames_sweep)
  next
    case (Some e)
    with Dir.prems have "err = Some e" "w' = w"
      by (simp_all add: fn_Dir)
    then show ?thesis by (simp add: sweepResult_nothing)
  qed
qed


lemma prefix_before_separator:
  assumes "c \<notin> set p"
  shows "prefix p (a @ c # b) = prefix p a"
  using assms by (auto simp: prefix_append prefix_Cons)

lemma suffix_past_separator:
  assumes "c \<notin> set s"
  shows "suffix s (xs @ c # n) = suffix s n"
  using assms prefix_before_separator [of c "rev s" "rev n" "rev xs"]
  by (simp add: suffix_to_prefix)

lemma suffix_log_joined:
  assumes "path = name \<or> (\<exists>xs. path = xs @ CHR ''/'' # name)"
  shows "suffix ''.log'' path = suffix ''.log'' name"
proof -
  have "suffix ''.log'' (xs @ CHR ''/'' # name) = suffix ''.log'' name" for xs
    by (rule suffix_past_separator) simp
  with assms show ?thesis by auto
qed

text \<open>
  C4, as the code has it. The paths a sweep removes are a prefix, in walk order, of the
  entries that are not directories, were modified before the cutoff (now minus
  \<open>MaxDay\<close> days) and end in \<^verbatim>\<open>.log\<close>; they are all of them when the sweep ends without
  error. Every file that is not removed, among them every stale file without the
  suffix and every file not older than the cutoff, keeps its contents. The paths are
  those \<^verbatim>\<open>filepath.Join\<close> gives the entries, whatever that function computes. (The
  suffix is tested on the path; a joined path is the entry's name or ends in a
  separator and the name, and then the test is the test on the name,
  \<open>suffix_log_joined\<close>.)
\<close>

theorem clearOldLogs_removes_expired_logs:
  assumes "clearOldLogs l root w = (err, w')"
    and "cutoffDate = addDate w (clock w (tick w)) 0 0 (sint (- MaxDay l))"
  shows "\<exists>gone. prefix gone (expiredLogs cutoffDate (nonDirs (joinPath w) (FilePath l) root))
           \<and> (err = None \<longrightarrow> gone = expiredLogs cutoffDate (nonDirs (joinPath w) (FilePath l) root))
           \<and> removed w' = removed w @ gone
           \<and> (\<forall>p. disk w' p = (if p \<in> set gone then None else disk w p))
           \<and> (\<forall>p \<in> set gone. \<exists>mt. (p, mt) \<in> set (nonDirs (joinPath w) (FilePath l) root)
                  \<and> Before mt cutoffDate \<and> suffix ''.log'' p)"
proof -
  obtain e1 w1 where
    wk: "walk (joinPath w) (clearOldLogs_fn cutoffDate) (FilePath l) root (w\<lparr>tick := Suc (tick w)\<rparr>) = (e1, w1)"
    by (cases "walk (joinPath w) (clearOldLogs_fn cutoffDate) (FilePath l) root (w\<lparr>tick := Suc (tick w)\<rparr>)")
  with assms have r: "w' = w1" "err = None \<longleftrightarrow> e1 = None"
    by (auto simp: clearOldLogs_def now_def Let_def split: option.splits)
  from walk_sweep [OF wk] obtain gone where
    g0: "prefix gone (expiredLogs cutoffDate (nonDirs (joinPath w) (FilePath l) root))"
      "e1 = None \<longrightarrow> gone = expiredLogs cutoffDate (nonDirs (joinPath w) (FilePath l) root)"
      "removed w1 = removed (w\<lparr>tick := Suc (tick w)\<rparr>) @ gone"
      "disk w1 = (\<lambda>p. if p \<in> set gone then None else disk (w\<lparr>tick := Suc (tick w)\<rparr>) p)"
    unfolding sweepResult_def by blast
  from g0 r have
    g: "prefix gone (expiredLogs cutoffDate (nonDirs (joinPath w) (FilePath l) root))"
      "err = None \<longrightarrow> gone = expiredLogs cutoffDate (nonDirs (joinPath w) (FilePath l) root)"
      "removed w' = removed w @ gone"
      "disk w' = (\<lambda>p. if p \<in> set gone then None else disk w p)"
    by (simp_all cong: if_cong)
  have "\<exists>mt. (p, mt) \<in> set (nonDirs (joinPath w) (FilePath l) root) \<and> Before mt cutoffDate \<and> suffix ''.log'' p"
    if "p \<in> set gone" for p
  proof -
    from that g(1) have "p \<in> set (expiredLogs cutoffDate (nonDirs (joinPath w) (FilePath l) root))"
      using set_mono_prefix by blast
    then show ?thesis by (auto simp: expiredLogs_def)
  qed
  with g show ?thesis by (intro exI [of _ gone]) simp
qed

lemma exampleCutoff: 
  "addDate sweepWorld (clock sweepWorld (tick sweepWorld)) 0 0 (sint (- MaxDay exampleLog)) = exampleCutoff"
  by (simp add: sweepWorld_def exampleWorld_def exampleLog_def exampleCutoff_def exampleTime_def)

lemma joinPath_sweepWorld:
  "joinPath sweepWorld = slashJoin"
  "joinPath deniedWorld = slashJoin"
  by (simp_all add: deniedWorld_def sweepWorld_def exampleWorld_def)

lemma nonDirs_exampleTree:
  "nonDirs slashJoin ''/srv/logs'' exampleTree =
     [(''/srv/logs/2024-01-01.log'', oldTime), (''/srv/logs/2024-03-04.log'', recentTime),
      (''/srv/logs/notes.txt'', oldTime), (''/srv/logs/sub/old.log'', oldTime)]"
  by (simp add: exampleTree_def slashJoin_def)

lemma expiredLogs_exampleTree:
  "expiredLogs exampleCutoff
     (nonDirs slashJoin ''/srv/logs'' exampleTree) =
     [''/srv/logs/2024-01-01.log'', ''/srv/logs/sub/old.log'']"
  by (simp add: nonDirs_exampleTree expiredLogs_def Before_def exampleCutoff_def oldTime_def
      recentTime_def suffix_to_prefix)


lemma clearOldLogs_example:
  "fst (clearOldLogs exampleLog exampleTree sweepWorld) = None"
  by (simp add: clearOldLogs_def now_def Let_def exampleTree_def slashJoin_def clearOldLogs_fn_def
      Before_def Remove_def suffix_to_prefix sweepWorld_def exampleWorld_def exampleLog_def
      oldTime_def recentTime_def exampleTime_def)

lemma FilePath_exampleLog: "FilePath exampleLog = ''/srv/logs''"
  by (simp add: exampleLog_def)

theorem clearOldLogs_removes_expired_logs_witness:
  "fst (clearOldLogs exampleLog exampleTree sweepWorld) = None
   \<and> addDate sweepWorld (clock sweepWorld (tick sweepWorld)) 0 0 (sint (- MaxDay exampleLog))
       = exampleCutoff
   \<and> nonDirs (joinPath sweepWorld) (FilePath exampleLog) exampleTree =
       [(''/srv/logs/2024-01-01.log'', oldTime), (''/srv/logs/2024-03-04.log'', recentTime),
        (''/srv/logs/notes.txt'', oldTime), (''/srv/logs/sub/old.log'', oldTime)]
   \<and> Before oldTime exampleCutoff \<and> \<not> Before recentTime exampleCutoff
   \<and> removed (snd (clearOldLogs exampleLog exampleTree sweepWorld))
       = [''/srv/logs/2024-01-01.log'', ''/srv/logs/sub/old.log'']
   \<and> disk (snd (clearOldLogs exampleLog exampleTree sweepWorld)) ''/srv/logs/2024-01-01.log'' = None
   \<and> disk (snd (clearOldLogs exampleLog exampleTree sweepWorld)) ''/srv/logs/sub/old.log'' = None
   \<and> disk (snd (clearOldLogs exampleLog exampleTree sweepWorld)) ''/srv/logs/2024-03-04.log''
       = Some ''b''
   \<and> disk (snd (clearOldLogs exampleLog exampleTree sweepWorld)) ''/srv/logs/notes.txt''
       = Some ''n''"
proof -
  obtain err w' where c: "clearOldLogs exampleLog exampleTree sweepWorld = (err, w')"
    by (cases "clearOldLogs exampleLog exampleTree sweepWorld")
  with clearOldLogs_example have e: "err = None" by simp
  from clearOldLogs_removes_expired_logs [OF c exampleCutoff [symmetric]] e
  have r: "removed w' = removed sweepWorld @ expiredLogs exampleCutoff (nonDirs (joinPath sweepWorld) (FilePath exampleLog) exampleTree)"
    and d: "\<And>p. disk w' p = (if p \<in> set (expiredLogs exampleCutoff (nonDirs (joinPath sweepWorld) (FilePath exampleLog) exampleTree))
          then None else disk sweepWorld p)"
    by auto
  have b: "Before oldTime exampleCutoff \<and> \<not> Before recentTime exampleCutoff"
    by (simp add: Before_def oldTime_def recentTime_def exampleCutoff_def)
  have "removed sweepWorld = []" by (simp add: sweepWorld_def exampleWorld_def)
  with r have r': "removed w' = [''/srv/logs/2024-01-01.log'', ''/srv/logs/sub/old.log'']"
    by (simp add: FilePath_exampleLog joinPath_sweepWorld expiredLogs_exampleTree)
  have d': "disk w' ''/srv/logs/2024-01-01.log'' = None" "disk w' ''/srv/logs/sub/old.log'' = None"
    "disk w' ''/srv/logs/2024-03-04.log'' = Some ''b''" "disk w' ''/srv/logs/notes.txt'' = Some ''n''"
  proof -
    have d2: "disk w' p = (if p \<in> set [''/srv/logs/2024-01-01.log'', ''/srv/logs/sub/old.log'']
        then None else disk sweepWorld p)" for p
      using d [of p] by (simp add: FilePath_exampleLog joinPath_sweepWorld expiredLogs_exampleTree)
    show "disk w' ''/srv/logs/2024-01-01.log'' = None" "disk w' ''/srv/logs/sub/old.log'' = None"
      "disk w' ''/srv/logs/2024-03-04.log'' = Some ''b''" "disk w' ''/srv/logs/notes.txt'' = Some ''n''"
      by (simp_all add: d2 sweepWorld_def)
  qed
  from c e exampleCutoff nonDirs_exampleTree b r' d' show ?thesis
    by (simp add: FilePath_exampleLog joinPath_sweepWorld)
qed

text \<open>
  With the log directory \<^verbatim>\<open>.\<close> and a join that cleans as \<^verbatim>\<open>filepath.Join\<close> does there, the
  sweep removes \<^verbatim>\<open>old.log\<close> under that very path.
\<close>

lemma clearOldLogs_at_dot:
  "fst (clearOldLogs (exampleLog\<lparr>FilePath := ''.''\<rparr>) dotTree dotWorld) = None
   \<and> nonDirs (joinPath dotWorld) ''.'' dotTree = [(''old.log'', oldTime)]
   \<and> removed (snd (clearOldLogs (exampleLog\<lparr>FilePath := ''.''\<rparr>) dotTree dotWorld)) = [''old.log'']
   \<and> disk (snd (clearOldLogs (exampleLog\<lparr>FilePath := ''.''\<rparr>) dotTree dotWorld)) ''old.log'' = None"
  by (simp add: clearOldLogs_def now_def Let_def dotTree_def dotJoin_def clearOldLogs_fn_def
      Before_def Remove_def suffix_to_prefix dotWorld_def exampleWorld_def exampleLog_def
      oldTime_def recentTime_def exampleTime_def)

lemma exampleCutoff_denied:
  "addDate deniedWorld (clock deniedWorld (tick deniedWorld)) 0 0 (sint (- MaxDay exampleLog))
     = exampleCutoff"
  by (simp add: deniedWorld_def sweepWorld_def exampleWorld_def exampleLog_def exampleCutoff_def
      exampleTime_def)

text \<open>
  C4 as stated fails when an error ends the walk early: the first expired log cannot be
  removed, the sweep returns that error, and the expired log in the subdirectory is
  still there.
\<close>

theorem clearOldLogs_aborted_sweep_counterexample:
  "fst (clearOldLogs exampleLog exampleTree deniedWorld)
     = Some ''failed to clear old logs:permission denied''
   \<and> addDate deniedWorld (clock deniedWorld (tick deniedWorld)) 0 0 (sint (- MaxDay exampleLog))
       = exampleCutoff
   \<and> (''/srv/logs/sub/old.log'', oldTime) \<in> set (nonDirs (joinPath deniedWorld) (FilePath exampleLog) exampleTree)
   \<and> Before oldTime exampleCutoff \<and> suffix ''.log'' ''/srv/logs/sub/old.log''
   \<and> removed (snd (clearOldLogs exampleLog exampleTree deniedWorld)) = []
   \<and> disk (snd (clearOldLogs exampleLog exampleTree deniedWorld)) ''/srv/logs/sub/old.log''
       = Some ''o''"
proof -
  have "clearOldLogs exampleLog exampleTree deniedWorld
      = (Some ''failed to clear old logs:permission denied'', deniedWorld\<lparr>tick := 1\<rparr>)"
    by (simp add: clearOldLogs_def now_def Let_def exampleTree_def slashJoin_def clearOldLogs_fn_def
        Before_def Remove_def suffix_to_prefix deniedWorld_def sweepWorld_def exampleWorld_def
        exampleLog_def oldTime_def recentTime_def exampleTime_def)
  moreover have "removed deniedWorld = []"
    "disk deniedWorld ''/srv/logs/sub/old.log'' = Some ''o''"
    by (simp_all add: deniedWorld_def sweepWorld_def exampleWorld_def)
  moreover have "Before oldTime exampleCutoff \<and> suffix ''.log'' ''/srv/logs/sub/old.log''"
    by (simp add: Before_def oldTime_def exampleCutoff_def suffix_to_prefix)
  ultimately show ?thesis
    using exampleCutoff_denied nonDirs_exampleTree
    by (simp add: FilePath_exampleLog joinPath_sweepWorld)
qed

text \<open>
  The earlier copy of the sweep removes the stale file that is no log as well, and the
  earlier \<open>Errorf\<close> leaves the level as it is.
\<close>

lemma clearOldLogs_sync_removes_other_files:
  "removed (snd (clearOldLogs_sync exampleLog exampleTree sweepWorld))
     = [''/srv/logs/2024-01-01.log'', ''/srv/logs/notes.txt'', ''/srv/logs/sub/old.log'']"
  by (simp add: clearOldLogs_sync_def now_def Let_def exampleTree_def slashJoin_def
      clearOldLogs_fn_sync_def Before_def Remove_def sweepWorld_def exampleWorld_def
      exampleLog_def oldTime_def recentTime_def exampleTime_def)

lemma Errorf_sync_keeps_level:
  "LogLevel (fst (stateOf (Errorf_sync l caller formatted w))) = LogLevel l"
  by (simp add: Errorf_sync_def)

end
